theory Spec2Isabelle
  imports Complex_Main "HOL-Library.Word" "HOL-Library.Multiset"
begin

section \<open>JavaScript strings\<close>

text \<open>
  A JavaScript string is a sequence of UTF-16 code units: \<open>.length\<close>, \<open>substring\<close> and
  the regular expressions of the source (none has the \<open>u\<close> flag) all count code units.
  A string is therefore a list of 16-bit words; \<open>js ''abc''\<close> is the string of an ASCII
  literal.
\<close>

type_synonym jchar = "16 word"
type_synonym jstr = "jchar list"

abbreviation cu :: "char \<Rightarrow> jchar" where "cu \<equiv> of_char"
abbreviation js :: "string \<Rightarrow> jstr" where "js \<equiv> map cu"

definition startsWith :: "jstr \<Rightarrow> jstr \<Rightarrow> bool" where
  "startsWith s p = (take (length p) s = p)"

text \<open>
  The character class \<open>\s\<close> of a regular expression and the characters removed by
  \<open>trim\<close> are the same set: the ECMAScript WhiteSpace and LineTerminator code points.
\<close>

definition is_space :: "jchar \<Rightarrow> bool" where
  "is_space c =
     (let n = unat c in
      n = 9 \<or> n = 10 \<or> n = 11 \<or> n = 12 \<or> n = 13 \<or> n = 32 \<or> n = 160 \<or> n = 5760
      \<or> (8192 \<le> n \<and> n \<le> 8202)
      \<or> n = 8232 \<or> n = 8233 \<or> n = 8239 \<or> n = 8287 \<or> n = 12288 \<or> n = 65279)"

definition trim :: "jstr \<Rightarrow> jstr" where
  "trim s = rev (dropWhile is_space (rev (dropWhile is_space s)))"

subsection \<open>Global replacement by a regular expression\<close>

text \<open>
  \<open>s.replace(/re/g, rep)\<close> scans \<open>s\<close> from the left. A matcher gives the length of
  the match of its expression that starts at the head of the string, \<open>0\<close> when there is
  none (no expression of the source matches the empty string). At a match the replacement
  is emitted and the scan resumes behind the match; otherwise one code unit is copied.
  No replacement string of the source contains a \<open>$\<close> pattern.
\<close>

type_synonym matcher = "jstr \<Rightarrow> nat"

function replace_g :: "matcher \<Rightarrow> jstr \<Rightarrow> jstr \<Rightarrow> jstr" where
  "replace_g m rep [] = []"
| "replace_g m rep (c # cs) =
     (if m (c # cs) = 0 then c # replace_g m rep cs
      else rep @ replace_g m rep (drop (m (c # cs) - 1) cs))"
  by pat_completeness auto
termination
  by (relation "measure (\<lambda>(m, rep, s). length s)") auto

text \<open>A literal pattern such as \<open>/&amp;/\<close>.\<close>

definition re_literal :: "jstr \<Rightarrow> matcher" where
  "re_literal p s = (if startsWith s p then length p else 0)"

text \<open>
  \<open>/p[^>]+>/\<close> for a literal prefix \<open>p\<close>: the prefix, the longest run of code units
  other than \<open>>\<close>, which must not be empty, and a closing \<open>>\<close>. The class cannot
  consume a \<open>>\<close>, so giving back code units of the run never produces a match.
\<close>

definition re_bracket :: "jstr \<Rightarrow> matcher" where
  "re_bracket p s =
     (if startsWith s p then
        (let body = drop (length p) s;
             n = length (takeWhile (\<lambda>c. c \<noteq> cu CHR ''>'') body)
         in if 0 < n \<and> n < length body then length p + n + 1 else 0)
      else 0)"

text \<open>The class \<open>[a-z0-9_+-]\<close>.\<close>

definition emoji_name_char :: "jchar \<Rightarrow> bool" where
  "emoji_name_char c =
     (let n = unat c in
      (97 \<le> n \<and> n \<le> 122) \<or> (48 \<le> n \<and> n \<le> 57) \<or> n = 95 \<or> n = 43 \<or> n = 45)"

text \<open>\<open>/:[a-z0-9_+-]+:/\<close>, an emoji code.\<close>

definition re_emoji_code :: matcher where
  "re_emoji_code s =
     (case s of
        [] \<Rightarrow> 0
      | c # cs \<Rightarrow>
          if c = cu CHR '':'' then
            (let n = length (takeWhile emoji_name_char cs)
             in if 0 < n \<and> n < length cs \<and> cs ! n = cu CHR '':'' then n + 2 else 0)
          else 0)"

text \<open>\<open>/\s+/\<close>.\<close>

definition re_spaces :: matcher where
  "re_spaces s = length (takeWhile is_space s)"

section \<open>Normalization of a message text\<close>

text \<open>
  The part of \<open>cleanSlackText\<close> that the two copies of the route share: the three
  angle-bracket constructs are removed, then the three entity escapes are decoded, in
  this order.
\<close>

definition strip_markup :: "jstr \<Rightarrow> jstr" where
  "strip_markup text =
     replace_g (re_literal (js ''&gt;'')) (js ''>'')
      (replace_g (re_literal (js ''&lt;'')) (js ''<'')
      (replace_g (re_literal (js ''&amp;'')) (js ''&'')
      (replace_g (re_bracket (js ''<'')) []
      (replace_g (re_bracket (js ''<http'')) []
      (replace_g (re_bracket (js ''<@'')) [] text)))))"

text \<open>
  \<open>cleanSlackText\<close> of \<open>src/app/api/mood/route.ts\<close>: after the markup, every emoji
  code is removed, white space is collapsed and the text is trimmed.
\<close>

definition cleanSlackText :: "jstr \<Rightarrow> jstr" where
  "cleanSlackText text =
     trim (replace_g re_spaces (js '' '') (replace_g re_emoji_code [] (strip_markup text)))"

text \<open>
  \<open>cleanSlackText\<close> of the second copy of the route (\<open>src/unnamed/part_000\<close>), which
  has no emoji step; its comment reads "Keep emoji codes - don't strip them, AI needs to
  see them".
\<close>

definition cleanSlackText_part000 :: "jstr \<Rightarrow> jstr" where
  "cleanSlackText_part000 text = trim (replace_g re_spaces (js '' '') (strip_markup text))"

text \<open>Whether a string occurs in another as a contiguous piece.\<close>

fun occurs_in :: "jstr \<Rightarrow> jstr \<Rightarrow> bool" where
  "occurs_in t [] = (t = [])"
| "occurs_in t (c # cs) = (startsWith (c # cs) t \<or> occurs_in t cs)"

text \<open>An emoji code \<open>:name:\<close>: a colon, a non-empty name of the class, a colon.\<close>

definition emoji_code :: "jstr \<Rightarrow> bool" where
  "emoji_code t = (t \<noteq> [] \<and> re_emoji_code t = length t)"

text \<open>Whether an expression matches somewhere in a string.\<close>

fun matches_in :: "matcher \<Rightarrow> jstr \<Rightarrow> bool" where
  "matches_in m [] = False"
| "matches_in m (c # cs) = (m (c # cs) \<noteq> 0 \<or> matches_in m cs)"

text \<open>
  A text that no markup step changes: it has no angle-bracket construct (the expression
  \<open>/<[^>]+>/\<close> matches wherever one of the two more specific ones does) and no
  entity escape.
\<close>

definition markup_free :: "jstr \<Rightarrow> bool" where
  "markup_free s =
     (\<not> (matches_in (re_bracket (js ''<'')) s
         \<or> matches_in (re_literal (js ''&amp;'')) s
         \<or> matches_in (re_literal (js ''&lt;'')) s
         \<or> matches_in (re_literal (js ''&gt;'')) s))"

text \<open>
  The shape of a text after \<open>/\s+/g\<close> has been replaced by one space: every white
  space code unit is a space (32) and none follows it.
\<close>

fun ws_normal :: "jstr \<Rightarrow> bool" where
  "ws_normal [] = True"
| "ws_normal [c] = (is_space c \<longrightarrow> c = 32)"
| "ws_normal (c # d # cs) =
     ((is_space c \<longrightarrow> c = 32 \<and> \<not> is_space d) \<and> ws_normal (d # cs))"

section \<open>JavaScript numbers and objects\<close>

text \<open>
  A number is a double: NaN, an infinity or a finite value, which is modelled by the real
  number it stands for (the two zeros are one value; no operation below tells them
  apart). \<open>js_gt a b\<close> is \<open>a > b\<close>, which is false when an operand is NaN.
\<close>

datatype jsnum = NaN | NegInf | Fin real | PosInf

fun js_gt :: "jsnum \<Rightarrow> jsnum \<Rightarrow> bool" where
  "js_gt (Fin a) (Fin b) = (b < a)"
| "js_gt PosInf (Fin b) = True"
| "js_gt PosInf NegInf = True"
| "js_gt (Fin a) NegInf = True"
| "js_gt _ _ = False"

text \<open>
  The result of an arithmetic operation is the exact result rounded to the nearest
  double, a tie going to the even significand (\<open>to_double\<close>). The doubles around a
  positive real \<open>a\<close> with \<open>2 ^ k \<le> a < 2 ^ (k + 1)\<close> are the multiples of
  \<open>2 ^ e\<close>, where \<open>e\<close> is \<open>k - 52\<close> (a significand has 53 bits) and at
  least \<open>-1074\<close> (the subnormal numbers); \<open>ulp_exponent a\<close> is that \<open>e\<close>. A
  result of magnitude \<open>2 ^ 1024\<close> or more after rounding is an infinity.

  \<open>bit_length n\<close> is the number of binary digits of \<open>n\<close>, so that
  \<open>2 ^ (bit_length n - 1) \<le> n < 2 ^ bit_length n\<close> for positive \<open>n\<close>: for
  \<open>a \<ge> 1\<close> the \<open>k\<close> above is \<open>bit_length \<lfloor>a\<rfloor> - 1\<close>, and for \<open>a < 1\<close>
  it is read off \<open>a * 2 ^ 1074\<close>, the multiple of the least subnormal number.
\<close>

function bit_length :: "nat \<Rightarrow> nat" where
  "bit_length n = (if n = 0 then 0 else Suc (bit_length (n div 2)))"
  by pat_completeness auto
termination by (relation "measure (\<lambda>n. n)") auto

definition pow2 :: "int \<Rightarrow> real" where
  "pow2 e = (if 0 \<le> e then 2 ^ nat e else 1 / 2 ^ nat (- e))"

definition ulp_exponent :: "real \<Rightarrow> int" where
  "ulp_exponent a =
     (if 1 \<le> a then int (bit_length (nat \<lfloor>a\<rfloor>)) - 53
      else max (- 1074) (int (bit_length (nat \<lfloor>a * 2 ^ 1074\<rfloor>)) - 1127))"

definition round_half_even :: "real \<Rightarrow> int" where
  "round_half_even r =
     (let f = \<lfloor>r\<rfloor> in
      if r - of_int f < 1 / 2 then f
      else if 1 / 2 < r - of_int f then f + 1
      else if even f then f else f + 1)"

definition to_double :: "real \<Rightarrow> jsnum" where
  "to_double x =
     (if x = 0 then Fin 0
      else
        (let e = ulp_exponent \<bar>x\<bar>;
             y = of_int (round_half_even (\<bar>x\<bar> / pow2 e)) * pow2 e
         in if 2 ^ 1024 \<le> y then (if 0 < x then PosInf else NegInf)
            else Fin (if 0 < x then y else - y)))"

text \<open>
  \<open>a / c\<close> and \<open>a - c\<close> where the right operand is a literal of the source, a
  finite double greater than zero.
\<close>

fun js_divide :: "jsnum \<Rightarrow> real \<Rightarrow> jsnum" where
  "js_divide (Fin a) c = to_double (a / c)"
| "js_divide NaN c = NaN"
| "js_divide PosInf c = PosInf"
| "js_divide NegInf c = NegInf"

fun js_minus :: "jsnum \<Rightarrow> real \<Rightarrow> jsnum" where
  "js_minus (Fin a) c = to_double (a - c)"
| "js_minus NaN c = NaN"
| "js_minus PosInf c = PosInf"
| "js_minus NegInf c = NegInf"

text \<open>
  Reading a property of an object literal finds the object's own property or, failing
  that, a member inherited from \<open>Object.prototype\<close>, which is a function or an
  object and never a string or a playlist. The result is \<open>None\<close> for
  \<open>undefined\<close>.
\<close>

definition object_prototype_names :: "jstr list" where
  "object_prototype_names =
     [js ''constructor'', js ''__defineGetter__'', js ''__defineSetter__'',
      js ''hasOwnProperty'', js ''__lookupGetter__'', js ''__lookupSetter__'',
      js ''isPrototypeOf'', js ''propertyIsEnumerable'', js ''toString'', js ''valueOf'',
      js ''__proto__'', js ''toLocaleString'']"

datatype 'a jsval = Val 'a | Inherited jstr

definition obj_get :: "(jstr \<rightharpoonup> 'a) \<Rightarrow> jstr \<Rightarrow> 'a jsval option" where
  "obj_get obj k =
     (case obj k of
        Some v \<Rightarrow> Some (Val v)
      | None \<Rightarrow> if k \<in> set object_prototype_names then Some (Inherited k) else None)"

text \<open>The template literal \<open>`:${name}:`\<close>.\<close>

definition colons :: "jstr \<Rightarrow> jstr" where
  "colons nm = cu CHR '':'' # nm @ [cu CHR '':'']"

text \<open>\<open>xs.join(sep)\<close>.\<close>

fun join :: "jstr \<Rightarrow> jstr list \<Rightarrow> jstr" where
  "join sep [] = []"
| "join sep [x] = x"
| "join sep (x # y # ys) = x @ sep @ join sep (y # ys)"

text \<open>\<open>s.split(d)\<close> for a separator of one code unit.\<close>

fun split :: "jchar \<Rightarrow> jstr \<Rightarrow> jstr list" where
  "split d [] = [[]]"
| "split d (c # cs) =
     (if c = d then [] # split d cs
      else (case split d cs of [] \<Rightarrow> [[c]] | x # xs \<Rightarrow> (c # x) # xs))"

section \<open>The emoji directory\<close>

text \<open>\<open>getBasicEmojiMap\<close> of \<open>route.ts\<close>; a glyph is written by its UTF-16 code units.\<close>

definition getBasicEmojiMap :: "(jstr \<times> jstr) list" where
  "getBasicEmojiMap =
    [(js '':pray:'', [0xD83D, 0xDE4F]),
     (js '':cry:'', [0xD83D, 0xDE22]),
     (js '':sob:'', [0xD83D, 0xDE2D]),
     (js '':disappointed:'', [0xD83D, 0xDE1E]),
     (js '':broken_heart:'', [0xD83D, 0xDC94]),
     (js '':heart:'', [0x2764, 0xFE0F]),
     (js '':clap:'', [0xD83D, 0xDC4F]),
     (js '':party_blob:'', [0xD83C, 0xDF89]),
     (js '':partying_face:'', [0xD83E, 0xDD73]),
     (js '':joy:'', [0xD83D, 0xDE02]),
     (js '':raised_hands:'', [0xD83D, 0xDE4C]),
     (js '':fire:'', [0xD83D, 0xDD25]),
     (js '':thumbsup:'', [0xD83D, 0xDC4D]),
     (js '':+1:'', [0xD83D, 0xDC4D]),
     (js '':thumbsdown:'', [0xD83D, 0xDC4E]),
     (js '':-1:'', [0xD83D, 0xDC4E]),
     (js '':tada:'', [0xD83C, 0xDF8A]),
     (js '':star:'', [0x2B50]),
     (js '':100:'', [0xD83D, 0xDCAF]),
     (js '':muscle:'', [0xD83D, 0xDCAA]),
     (js '':sparkles:'', [0x2728]),
     (js '':rocket:'', [0xD83D, 0xDE80]),
     (js '':eyes:'', [0xD83D, 0xDC40]),
     (js '':thinking_face:'', [0xD83E, 0xDD14]),
     (js '':thinking:'', [0xD83E, 0xDD14]),
     (js '':sweat_smile:'', [0xD83D, 0xDE05]),
     (js '':scream:'', [0xD83D, 0xDE31]),
     (js '':worried:'', [0xD83D, 0xDE1F]),
     (js '':fearful:'', [0xD83D, 0xDE28]),
     (js '':weary:'', [0xD83D, 0xDE29]),
     (js '':pensive:'', [0xD83D, 0xDE14]),
     (js '':relieved:'', [0xD83D, 0xDE0C]),
     (js '':triumph:'', [0xD83D, 0xDE24]),
     (js '':persevere:'', [0xD83D, 0xDE23]),
     (js '':confounded:'', [0xD83D, 0xDE16]),
     (js '':rage:'', [0xD83D, 0xDE21]),
     (js '':angry:'', [0xD83D, 0xDE20]),
     (js '':smile:'', [0xD83D, 0xDE0A]),
     (js '':grin:'', [0xD83D, 0xDE01]),
     (js '':laughing:'', [0xD83D, 0xDE06]),
     (js '':blush:'', [0xD83D, 0xDE0A]),
     (js '':wink:'', [0xD83D, 0xDE09]),
     (js '':heart_eyes:'', [0xD83D, 0xDE0D]),
     (js '':kissing_heart:'', [0xD83D, 0xDE18]),
     (js '':sunglasses:'', [0xD83D, 0xDE0E]),
     (js '':smirk:'', [0xD83D, 0xDE0F]),
     (js '':innocent:'', [0xD83D, 0xDE07]),
     (js '':nerd_face:'', [0xD83E, 0xDD13]),
     (js '':face_with_monocle:'', [0xD83E, 0xDDD0]),
     (js '':star_struck:'', [0xD83E, 0xDD29]),
     (js '':upside_down_face:'', [0xD83D, 0xDE43]),
     (js '':slightly_smiling_face:'', [0xD83D, 0xDE42]),
     (js '':grimacing:'', [0xD83D, 0xDE2C]),
     (js '':neutral_face:'', [0xD83D, 0xDE10]),
     (js '':expressionless:'', [0xD83D, 0xDE11]),
     (js '':confused:'', [0xD83D, 0xDE15]),
     (js '':frowning:'', [0x2639, 0xFE0F]),
     (js '':slightly_frowning_face:'', [0xD83D, 0xDE41]),
     (js '':unamused:'', [0xD83D, 0xDE12])]"

text \<open>
  The table of the second copy (\<open>src/unnamed/part_000\<close>), whose glyphs are kept as the
  code units the file holds.
\<close>

definition getBasicEmojiMap_part000 :: "(jstr \<times> jstr) list" where
  "getBasicEmojiMap_part000 =
    [(js '':pray:'', [0x011F, 0x0178, 0x2122]),
     (js '':pray::skin-tone-2:'', [0x011F, 0x0178, 0x2122, 0x011F, 0x0178, 0x00BB]),
     (js '':pray::skin-tone-3:'', [0x011F, 0x0178, 0x2122, 0x011F, 0x0178, 0x00BC]),
     (js '':pray::skin-tone-4:'', [0x011F, 0x0178, 0x2122, 0x011F, 0x0178, 0x00BD]),
     (js '':pray::skin-tone-5:'', [0x011F, 0x0178, 0x2122, 0x011F, 0x0178, 0x00BE]),
     (js '':pray::skin-tone-6:'', [0x011F, 0x0178, 0x2122, 0x011F, 0x0178, 0x00BF]),
     (js '':cry:'', [0x011F, 0x0178, 0x02DC, 0x00A2]),
     (js '':sob:'', [0x011F, 0x0178, 0x02DC, 0x00AD]),
     (js '':disappointed:'', [0x011F, 0x0178, 0x02DC]),
     (js '':broken_heart:'', [0x011F, 0x0178, 0x2019, 0x201D]),
     (js '':heart:'', [0x00E2, 0x00A4, 0x00EF, 0x00B8]),
     (js '':white_heart:'', [0x011F, 0x0178, 0x00A4]),
     (js '':clap:'', [0x011F, 0x0178, 0x2018]),
     (js '':clap::skin-tone-2:'', [0x011F, 0x0178, 0x2018, 0x011F, 0x0178, 0x00BB]),
     (js '':clap::skin-tone-3:'', [0x011F, 0x0178, 0x2018, 0x011F, 0x0178, 0x00BC]),
     (js '':clap::skin-tone-4:'', [0x011F, 0x0178, 0x2018, 0x011F, 0x0178, 0x00BD]),
     (js '':clap::skin-tone-5:'', [0x011F, 0x0178, 0x2018, 0x011F, 0x0178, 0x00BE]),
     (js '':clap::skin-tone-6:'', [0x011F, 0x0178, 0x2018, 0x011F, 0x0178, 0x00BF]),
     (js '':party_blob:'', [0x011F, 0x0178, 0x2030]),
     (js '':partying_face:'', [0x011F, 0x0178, 0x00A5, 0x00B3]),
     (js '':joy:'', [0x011F, 0x0178, 0x02DC, 0x201A]),
     (js '':raised_hands:'', [0x011F, 0x0178, 0x2122, 0x0152]),
     (js '':raised_hands::skin-tone-2:'', [0x011F, 0x0178, 0x2122, 0x0152, 0x011F, 0x0178, 0x00BB]),
     (js '':raised_hands::skin-tone-3:'', [0x011F, 0x0178, 0x2122, 0x0152, 0x011F, 0x0178, 0x00BC]),
     (js '':raised_hands::skin-tone-4:'', [0x011F, 0x0178, 0x2122, 0x0152, 0x011F, 0x0178, 0x00BD]),
     (js '':raised_hands::skin-tone-5:'', [0x011F, 0x0178, 0x2122, 0x0152, 0x011F, 0x0178, 0x00BE]),
     (js '':raised_hands::skin-tone-6:'', [0x011F, 0x0178, 0x2122, 0x0152, 0x011F, 0x0178, 0x00BF]),
     (js '':fire:'', [0x011F, 0x0178, 0x201D, 0x00A5]),
     (js '':thumbsup:'', [0x011F, 0x0178, 0x2018]),
     (js '':thumbsup::skin-tone-2:'', [0x011F, 0x0178, 0x2018, 0x011F, 0x0178, 0x00BB]),
     (js '':thumbsup::skin-tone-3:'', [0x011F, 0x0178, 0x2018, 0x011F, 0x0178, 0x00BC]),
     (js '':thumbsup::skin-tone-4:'', [0x011F, 0x0178, 0x2018, 0x011F, 0x0178, 0x00BD]),
     (js '':thumbsup::skin-tone-5:'', [0x011F, 0x0178, 0x2018, 0x011F, 0x0178, 0x00BE]),
     (js '':thumbsup::skin-tone-6:'', [0x011F, 0x0178, 0x2018, 0x011F, 0x0178, 0x00BF]),
     (js '':+1:'', [0x011F, 0x0178, 0x2018]),
     (js '':+1::skin-tone-2:'', [0x011F, 0x0178, 0x2018, 0x011F, 0x0178, 0x00BB]),
     (js '':+1::skin-tone-3:'', [0x011F, 0x0178, 0x2018, 0x011F, 0x0178, 0x00BC]),
     (js '':+1::skin-tone-4:'', [0x011F, 0x0178, 0x2018, 0x011F, 0x0178, 0x00BD]),
     (js '':+1::skin-tone-5:'', [0x011F, 0x0178, 0x2018, 0x011F, 0x0178, 0x00BE]),
     (js '':+1::skin-tone-6:'', [0x011F, 0x0178, 0x2018, 0x011F, 0x0178, 0x00BF]),
     (js '':thumbsdown:'', [0x011F, 0x0178, 0x2018]),
     (js '':thumbsdown::skin-tone-2:'', [0x011F, 0x0178, 0x2018, 0x011F, 0x0178, 0x00BB]),
     (js '':thumbsdown::skin-tone-3:'', [0x011F, 0x0178, 0x2018, 0x011F, 0x0178, 0x00BC]),
     (js '':thumbsdown::skin-tone-4:'', [0x011F, 0x0178, 0x2018, 0x011F, 0x0178, 0x00BD]),
     (js '':thumbsdown::skin-tone-5:'', [0x011F, 0x0178, 0x2018, 0x011F, 0x0178, 0x00BE]),
     (js '':thumbsdown::skin-tone-6:'', [0x011F, 0x0178, 0x2018, 0x011F, 0x0178, 0x00BF]),
     (js '':-1:'', [0x011F, 0x0178, 0x2018]),
     (js '':-1::skin-tone-2:'', [0x011F, 0x0178, 0x2018, 0x011F, 0x0178, 0x00BB]),
     (js '':-1::skin-tone-3:'', [0x011F, 0x0178, 0x2018, 0x011F, 0x0178, 0x00BC]),
     (js '':-1::skin-tone-4:'', [0x011F, 0x0178, 0x2018, 0x011F, 0x0178, 0x00BD]),
     (js '':-1::skin-tone-5:'', [0x011F, 0x0178, 0x2018, 0x011F, 0x0178, 0x00BE]),
     (js '':-1::skin-tone-6:'', [0x011F, 0x0178, 0x2018, 0x011F, 0x0178, 0x00BF]),
     (js '':tada:'', [0x011F, 0x0178, 0x0160]),
     (js '':star:'', [0x00E2, 0x00AD]),
     (js '':100:'', [0x011F, 0x0178, 0x2019, 0x00AF]),
     (js '':muscle:'', [0x011F, 0x0178, 0x2019, 0x00AA]),
     (js '':muscle::skin-tone-2:'', [0x011F, 0x0178, 0x2019, 0x00AA, 0x011F, 0x0178, 0x00BB]),
     (js '':muscle::skin-tone-3:'', [0x011F, 0x0178, 0x2019, 0x00AA, 0x011F, 0x0178, 0x00BC]),
     (js '':muscle::skin-tone-4:'', [0x011F, 0x0178, 0x2019, 0x00AA, 0x011F, 0x0178, 0x00BD]),
     (js '':muscle::skin-tone-5:'', [0x011F, 0x0178, 0x2019, 0x00AA, 0x011F, 0x0178, 0x00BE]),
     (js '':muscle::skin-tone-6:'', [0x011F, 0x0178, 0x2019, 0x00AA, 0x011F, 0x0178, 0x00BF]),
     (js '':sparkles:'', [0x00E2, 0x0153, 0x00A8]),
     (js '':rocket:'', [0x011F, 0x0178, 0x0161, 0x20AC]),
     (js '':eyes:'', [0x011F, 0x0178, 0x2018, 0x20AC]),
     (js '':thinking_face:'', [0x011F, 0x0178, 0x00A4, 0x201D]),
     (js '':thinking:'', [0x011F, 0x0178, 0x00A4, 0x201D]),
     (js '':sweat_smile:'', [0x011F, 0x0178, 0x02DC, 0x2026]),
     (js '':scream:'', [0x011F, 0x0178, 0x02DC, 0x00B1]),
     (js '':worried:'', [0x011F, 0x0178, 0x02DC, 0x0178]),
     (js '':fearful:'', [0x011F, 0x0178, 0x02DC, 0x00A8]),
     (js '':weary:'', [0x011F, 0x0178, 0x02DC, 0x00A9]),
     (js '':pensive:'', [0x011F, 0x0178, 0x02DC, 0x201D]),
     (js '':relieved:'', [0x011F, 0x0178, 0x02DC, 0x0152]),
     (js '':triumph:'', [0x011F, 0x0178, 0x02DC, 0x00A4]),
     (js '':persevere:'', [0x011F, 0x0178, 0x02DC, 0x00A3]),
     (js '':confounded:'', [0x011F, 0x0178, 0x02DC, 0x2013]),
     (js '':rage:'', [0x011F, 0x0178, 0x02DC, 0x00A1]),
     (js '':angry:'', [0x011F, 0x0178, 0x02DC, 0x00A0]),
     (js '':smile:'', [0x011F, 0x0178, 0x02DC, 0x0160]),
     (js '':grin:'', [0x011F, 0x0178, 0x02DC]),
     (js '':laughing:'', [0x011F, 0x0178, 0x02DC, 0x2020]),
     (js '':blush:'', [0x011F, 0x0178, 0x02DC, 0x0160]),
     (js '':wink:'', [0x011F, 0x0178, 0x02DC, 0x2030]),
     (js '':heart_eyes:'', [0x011F, 0x0178, 0x02DC]),
     (js '':kissing_heart:'', [0x011F, 0x0178, 0x02DC, 0x02DC]),
     (js '':sunglasses:'', [0x011F, 0x0178, 0x02DC]),
     (js '':smirk:'', [0x011F, 0x0178, 0x02DC]),
     (js '':innocent:'', [0x011F, 0x0178, 0x02DC, 0x2021]),
     (js '':nerd_face:'', [0x011F, 0x0178, 0x00A4, 0x201C]),
     (js '':face_with_monocle:'', [0x011F, 0x0178, 0x00A7]),
     (js '':star_struck:'', [0x011F, 0x0178, 0x00A4, 0x00A9]),
     (js '':upside_down_face:'', [0x011F, 0x0178, 0x2122, 0x0192]),
     (js '':slightly_smiling_face:'', [0x011F, 0x0178, 0x2122, 0x201A]),
     (js '':grimacing:'', [0x011F, 0x0178, 0x02DC, 0x00AC]),
     (js '':neutral_face:'', [0x011F, 0x0178, 0x02DC]),
     (js '':expressionless:'', [0x011F, 0x0178, 0x02DC, 0x2018]),
     (js '':confused:'', [0x011F, 0x0178, 0x02DC, 0x2022]),
     (js '':frowning:'', [0x00E2, 0x02DC, 0x00B9, 0x00EF, 0x00B8]),
     (js '':slightly_frowning_face:'', [0x011F, 0x0178, 0x2122]),
     (js '':unamused:'', [0x011F, 0x0178, 0x02DC, 0x2019]),
     (js '':taco:'', [0x011F, 0x0178, 0x0152, 0x00AE]),
     (js '':kudosity-logo:'', [0x011F, 0x0178, 0x201D, 0x00AE]),
     (js '':rolling_on_the_floor_laughing:'', [0x011F, 0x0178, 0x00A4, 0x00A3]),
     (js '':arrow_up:'', [0x00E2, 0x00AC, 0x2020, 0x00EF, 0x00B8])]"

text \<open>
  \<open>getUnicodeForEmojiName\<close>, with the table as an argument since the two copies differ
  in the table only. The key has colons, so it names no member of \<open>Object.prototype\<close>
  and the lookup is that of the table's own entries; an empty glyph would be falsy.
\<close>

definition getUnicodeForEmojiName :: "(jstr \<rightharpoonup> jstr) \<Rightarrow> jstr \<Rightarrow> jstr" where
  "getUnicodeForEmojiName table nm =
     (case table (colons nm) of
        Some basic \<Rightarrow> if basic \<noteq> [] then basic else colons nm
      | None \<Rightarrow> colons nm)"

text \<open>
  A value of the fetched directory \<open>data.emoji\<close>: the loop of \<open>fetchSlackEmojis\<close>
  skips every value that is not a string.
\<close>

datatype emoji_value = Str jstr | NotAString

text \<open>
  One iteration of the loop over \<open>Object.entries(data.emoji)\<close>.
  \<open>value.replace('alias:', '')\<close> removes the first occurrence of the marker, which
  is at the start of the value here.
\<close>

fun emoji_step :: "(jstr \<rightharpoonup> jstr) \<Rightarrow> (jstr \<rightharpoonup> jstr) \<Rightarrow> jstr \<times> emoji_value \<Rightarrow> (jstr \<rightharpoonup> jstr)" where
  "emoji_step table emojiMap (nm, NotAString) = emojiMap"
| "emoji_step table emojiMap (nm, Str v) =
     (if startsWith v (js ''alias:'') then
        (let aliasName = drop (length (js ''alias:'')) v
         in emojiMap(colons nm \<mapsto>
              (case emojiMap (colons aliasName) of
                 Some u \<Rightarrow> if u \<noteq> [] then u else getUnicodeForEmojiName table aliasName
               | None \<Rightarrow> getUnicodeForEmojiName table aliasName)))
      else if startsWith v (js ''http'') then emojiMap(colons nm \<mapsto> colons nm)
      else emojiMap(colons nm \<mapsto> getUnicodeForEmojiName table nm))"

definition build_emoji_map :: "(jstr \<rightharpoonup> jstr) \<Rightarrow> (jstr \<times> emoji_value) list \<Rightarrow> (jstr \<rightharpoonup> jstr)" where
  "build_emoji_map table entries = foldl (emoji_step table) Map.empty entries"

text \<open>
  The answer of the \<open>emoji.list\<close> call: the call or the decoding of its body throws,
  or the body has \<open>ok\<close> and possibly \<open>emoji\<close>, whose entries are listed in the order
  \<open>Object.entries\<close> enumerates them.
\<close>

datatype emoji_list_result =
  EmojiCallThrows
| EmojiBody bool "(jstr \<times> emoji_value) list option"

text \<open>The module variables \<open>emojiCache\<close> and \<open>emojiCacheTime\<close>.\<close>

record emoji_state =
  emojiCache :: "(jstr \<rightharpoonup> jstr) option"
  emojiCacheTime :: int

definition CACHE_DURATION :: int where
  "CACHE_DURATION = 60 * 60 * 1000"

text \<open>
  \<open>fetchSlackEmojis\<close>: \<open>now_check\<close> and \<open>now_stored\<close> are the two readings of
  \<open>Date.now()\<close>. A failed call, a body that is not \<open>ok\<close> and a body without
  \<open>emoji\<close> (where \<open>Object.entries\<close> throws into the \<open>catch\<close>) give the table
  and leave the cache as it is.
\<close>

definition fetchSlackEmojis ::
  "(jstr \<rightharpoonup> jstr) \<Rightarrow> emoji_list_result \<Rightarrow> int \<Rightarrow> int \<Rightarrow> emoji_state
     \<Rightarrow> (jstr \<rightharpoonup> jstr) \<times> emoji_state" where
  "fetchSlackEmojis table answer now_check now_stored st =
     (case (case emojiCache st of
              Some cached \<Rightarrow>
                if now_check - emojiCacheTime st < CACHE_DURATION then Some cached else None
            | None \<Rightarrow> None) of
        Some cached \<Rightarrow> (cached, st)
      | None \<Rightarrow>
          (case answer of
             EmojiCallThrows \<Rightarrow> (table, st)
           | EmojiBody ok None \<Rightarrow> (table, st)
           | EmojiBody ok (Some entries) \<Rightarrow>
               if ok then
                 (let merged = table ++ build_emoji_map table entries
                  in (merged, \<lparr>emojiCache = Some merged, emojiCacheTime = now_stored\<rparr>))
               else (table, st)))"

text \<open>
  \<open>convertSlackEmojiToUnicode\<close>: \<open>emojiMap[emojiCode] || emojiCode\<close>. An inherited
  member is truthy and is what the function then returns.
\<close>

definition convertSlackEmojiToUnicode ::
  "(jstr \<rightharpoonup> jstr) \<Rightarrow> emoji_list_result \<Rightarrow> int \<Rightarrow> int \<Rightarrow> emoji_state \<Rightarrow> jstr
     \<Rightarrow> jstr jsval" where
  "convertSlackEmojiToUnicode table answer now_check now_stored st emojiCode =
     (let emojiMap = fst (fetchSlackEmojis table answer now_check now_stored st)
      in case obj_get emojiMap emojiCode of
           Some (Val glyph) \<Rightarrow> if glyph \<noteq> [] then Val glyph else Val emojiCode
         | Some (Inherited k) \<Rightarrow> Inherited k
         | None \<Rightarrow> Val emojiCode)"

section \<open>The playlist lookup\<close>

record Playlist =
  name :: jstr
  url :: jstr

definition playlist_map :: "(jstr \<times> Playlist) list" where
  "playlist_map =
     [(js ''Chaos'', \<lparr>name = js ''Calm Lo-Fi Focus'',
         url = js ''https://open.spotify.com/playlist/37i9dQZF1DX3Ogo9pFvBkY''\<rparr>),
      (js ''Stressed'', \<lparr>name = js ''Chill Hits'',
         url = js ''https://open.spotify.com/playlist/37i9dQZF1DX4WYpdgoIcn6''\<rparr>),
      (js ''Neutral'', \<lparr>name = js ''Easy Indie'',
         url = js ''https://open.spotify.com/playlist/37i9dQZF1DX2Nc3B70tvx0''\<rparr>),
      (js ''Good'', \<lparr>name = js ''Feel Good Pop'',
         url = js ''https://open.spotify.com/playlist/37i9dQZF1DXdPec7aLTmlC''\<rparr>),
      (js ''Vibes'', \<lparr>name = js ''Office Party Bangers'',
         url = js ''https://open.spotify.com/playlist/37i9dQZF1DXaXB8fQg7xif''\<rparr>)]"

definition playlist_map_part000 :: "(jstr \<times> Playlist) list" where
  "playlist_map_part000 =
     [(js ''Chaos'', \<lparr>name = js ''Calm Lo-Fi Focus'',
         url = js ''https://open.spotify.com/playlist/37i9dQZF1DX3Ogo9pFvBkY''\<rparr>),
      (js ''Stressed'', \<lparr>name = js ''Peaceful Piano'',
         url = js ''https://open.spotify.com/playlist/37i9dQZF1DX4sWSpwBtn3A''\<rparr>),
      (js ''Neutral'', \<lparr>name = js ''Easy Indie'',
         url = js ''https://open.spotify.com/playlist/37i9dQZF1DX2Nc3B70tvx0''\<rparr>),
      (js ''Good'', \<lparr>name = js ''Feel Good Pop'',
         url = js ''https://open.spotify.com/playlist/37i9dQZF1DXdPec7aLTmlC''\<rparr>),
      (js ''Vibes'', \<lparr>name = js ''Office Party Bangers'',
         url = js ''https://open.spotify.com/playlist/37i9dQZF1DXaXB8fQg7xif''\<rparr>)]"

text \<open>
  \<open>map[moodLabel] || map.Neutral\<close>, the table being an argument. Every own entry is
  an object and an inherited member is a function or an object: both are truthy.
\<close>

definition playlists_lookup :: "(jstr \<times> Playlist) list \<Rightarrow> jstr \<Rightarrow> Playlist jsval option" where
  "playlists_lookup tab moodLabel =
     (case obj_get (map_of tab) moodLabel of
        Some found \<Rightarrow> Some found
      | None \<Rightarrow> obj_get (map_of tab) (js ''Neutral''))"

definition playlistsForMood :: "jstr \<Rightarrow> Playlist jsval option" where
  "playlistsForMood moodLabel = playlists_lookup playlist_map moodLabel"

definition playlistsForMood_part000 :: "jstr \<Rightarrow> Playlist jsval option" where
  "playlistsForMood_part000 moodLabel = playlists_lookup playlist_map_part000 moodLabel"

section \<open>The message aggregator\<close>

text \<open>
  The fields of a message of \<open>conversations.history\<close> that the code reads. A field is
  \<open>None\<close> when the message does not have it; \<open>m_reactions\<close> holds the \<open>name\<close> of
  each reaction.
\<close>

record slack_message =
  m_type :: "jstr option"
  m_subtype :: "jstr option"
  m_bot_id :: "jstr option"
  m_files :: "jstr list option"
  m_text :: "jstr option"
  m_ts :: "jstr option"
  m_reactions :: "jstr list option"

text \<open>The body of the answer of \<open>conversations.history\<close>.\<close>

record history_body =
  ok :: bool
  error :: "jstr option"
  messages :: "slack_message list option"

text \<open>The field \<open>text\<close> of the source is \<open>msg_text\<close> here.\<close>

record MessageWithTimestamp =
  msg_text :: jstr
  timestamp :: jsnum

text \<open>A string option as a condition: \<open>undefined\<close> and the empty string are falsy.\<close>

fun truthy :: "jstr option \<Rightarrow> bool" where
  "truthy None = False"
| "truthy (Some s) = (s \<noteq> [])"

text \<open>A string option inside a template literal.\<close>

fun interpolate :: "jstr option \<Rightarrow> jstr" where
  "interpolate None = js ''undefined''"
| "interpolate (Some s) = s"

text \<open>
  A thrown value: an \<open>Error\<close> of the code, or the \<open>SyntaxError\<close> and
  \<open>TypeError\<close> of the runtime, each with its message.
\<close>

datatype exn = Error jstr | SyntaxError jstr | TypeError jstr

text \<open>
  What \<open>JSON.parse\<close> gives for a text: it throws a \<open>SyntaxError\<close> with the
  given message, or it returns a value without an array \<open>top_emojis\<close> (\<open>null\<close>,
  a number, an object that lacks the field), on which \<open>parsed.top_emojis.map\<close> throws
  a \<open>TypeError\<close> with the given message, or it returns an analysis.
\<close>

record 'e MoodAnalysis =
  mood_score :: real
  mood_label :: jstr
  summary :: jstr
  positive_signals :: "jstr list"
  negative_signals :: "jstr list"
  top_emojis :: "'e list"

datatype parsed_content =
  NotJSON jstr
| NoTopEmojis jstr
| Analysis "jstr MoodAnalysis"

text \<open>
  The body of the answer of the completion service: \<open>api_error\<close> is \<open>data.error\<close>
  with its \<open>message\<close> and with the text \<open>JSON.stringify\<close> gives for it, and
  \<open>content\<close> is \<open>data?.choices?.[0]?.message?.content\<close> together with what the
  runtime's \<open>JSON.parse\<close> gives for that text. The parser is not modelled: its
  result, and with it the message of the error it throws, is part of what a run is given.
\<close>

record oracle_error =
  message :: "jstr option"
  stringified :: jstr

record completion_body =
  api_error :: "oracle_error option"
  content :: "(jstr \<times> parsed_content) option"

text \<open>
  What the pipeline reads from outside: the configuration, the answers of the three
  services (the completion service answers to the list of weighted messages, which the
  prompt embeds), the readings of the clock, and the library function
  \<open>parseFloat\<close>, whose result (the double nearest to the decimal text it reads) is
  taken as given. \<open>now_weighting\<close> is the reading \<open>Date.now()\<close> of the aggregator,
  a whole number of milliseconds. \<open>settled_at i\<close> is the time at which the history call
  of the \<open>i\<close>-th channel settles. The variable \<open>SLACK_CHANNEL_IDS\<close> is taken as set
  and every history and completion call as answered with a body: a call that fails in
  transit is not modelled.
\<close>

record world =
  SLACK_CHANNEL_IDS :: jstr
  conversations_history :: "jstr \<Rightarrow> history_body"
  settled_at :: "nat \<Rightarrow> nat"
  parseFloat :: "jstr \<Rightarrow> jsnum"
  now_weighting :: int
  chat_completions :: "jstr list \<Rightarrow> completion_body"
  emoji_list :: emoji_list_result
  now_emoji_check :: int
  now_emoji_stored :: int
  now_iso :: jstr

text \<open>The message of the error thrown in \<open>fetchSlackMessagesFromChannel\<close>.\<close>

definition slack_error :: "jstr \<Rightarrow> history_body \<Rightarrow> jstr" where
  "slack_error channelId data =
     js ''Slack error for channel '' @ channelId @ js '': '' @ interpolate (error data)"

text \<open>The five filters on the raw messages, shared by the two copies.\<close>

definition textMessages :: "history_body \<Rightarrow> slack_message list" where
  "textMessages data =
     (let allMessages = (case messages data of None \<Rightarrow> [] | Some ms \<Rightarrow> ms);
          typeFiltered = filter (\<lambda>m. m_type m = Some (js ''message'')) allMessages;
          subtypeFiltered =
            filter (\<lambda>m. \<not> truthy (m_subtype m) \<or> m_subtype m = Some (js ''thread_broadcast''))
              typeFiltered;
          botFiltered = filter (\<lambda>m. \<not> truthy (m_bot_id m)) subtypeFiltered;
          fileFiltered = filter (\<lambda>m. m_files m = None) botFiltered
      in filter (\<lambda>m. truthy (m_text m)) fileFiltered)"

text \<open>\<open>parseFloat(m.ts || "0")\<close>.\<close>

definition ts_of :: "(jstr \<Rightarrow> jsnum) \<Rightarrow> slack_message \<Rightarrow> jsnum" where
  "ts_of pf m =
     pf (case m_ts m of None \<Rightarrow> js ''0'' | Some t \<Rightarrow> if t \<noteq> [] then t else js ''0'')"

text \<open>The argument of \<open>cleanSlackText(m.text)\<close>, whose parameter defaults to \<open>""\<close>.\<close>

definition text_arg :: "slack_message \<Rightarrow> jstr" where
  "text_arg m = (case m_text m of None \<Rightarrow> [] | Some t \<Rightarrow> t)"

text \<open>
  \<open>fetchSlackMessagesFromChannel\<close> of \<open>route.ts\<close>; the text of a message that has
  reactions gets their codes appended.
\<close>

definition fetchSlackMessagesFromChannel ::
  "world \<Rightarrow> jstr \<Rightarrow> exn + MessageWithTimestamp list" where
  "fetchSlackMessagesFromChannel w channelId =
     (let data = conversations_history w channelId in
      if \<not> ok data then Inl (Error (slack_error channelId data))
      else
        Inr (filter (\<lambda>msg. length (msg_text msg) > 3)
          (map (\<lambda>m.
             (let txt = cleanSlackText (text_arg m);
                  finalText =
                    (case m_reactions m of
                       None \<Rightarrow> txt
                     | Some rs \<Rightarrow>
                         if length rs > 0
                         then txt @ js '' [Reactions: '' @ join (js '' '') (map colons rs) @ js '']''
                         else txt)
              in \<lparr>msg_text = finalText, timestamp = ts_of (parseFloat w) m\<rparr>))
           (textMessages data))))"

text \<open>
  \<open>fetchSlackMessagesFromChannel\<close> of the second copy, which ignores reactions. Its
  request asks for the messages of the last 24 hours instead of the last 100; the answer
  is that of the world in both copies.
\<close>

definition fetchSlackMessagesFromChannel_part000 ::
  "world \<Rightarrow> jstr \<Rightarrow> exn + MessageWithTimestamp list" where
  "fetchSlackMessagesFromChannel_part000 w channelId =
     (let data = conversations_history w channelId in
      if \<not> ok data then Inl (Error (slack_error channelId data))
      else
        Inr (filter (\<lambda>msg. length (msg_text msg) > 3)
          (map (\<lambda>m. \<lparr>msg_text = cleanSlackText_part000 (text_arg m),
                       timestamp = ts_of (parseFloat w) m\<rparr>)
           (textMessages data))))"

text \<open>
  \<open>Promise.all\<close>: the values in the order of the promises when all are fulfilled,
  else the error of the promise that was rejected first. \<open>rank i\<close> is the time at which
  the \<open>i\<close>-th promise settles; \<open>first_rejection\<close> finds the earliest rejection, the
  one of the least index among those of the same time.
\<close>

fun first_rejection :: "(nat \<Rightarrow> nat) \<Rightarrow> nat \<Rightarrow> (exn + 'a) list \<Rightarrow> (nat \<times> exn) option" where
  "first_rejection rank i [] = None"
| "first_rejection rank i (Inr v # rs) = first_rejection rank (Suc i) rs"
| "first_rejection rank i (Inl e # rs) =
     (case first_rejection rank (Suc i) rs of
        None \<Rightarrow> Some (rank i, e)
      | Some (r, e') \<Rightarrow> if r < rank i then Some (r, e') else Some (rank i, e))"

definition promise_all :: "(nat \<Rightarrow> nat) \<Rightarrow> (exn + 'a) list \<Rightarrow> exn + 'a list" where
  "promise_all rank rs =
     (case first_rejection rank 0 rs of
        Some (r, e) \<Rightarrow> Inl e
      | None \<Rightarrow> Inr (concat (map (\<lambda>r. case r of Inl e \<Rightarrow> [] | Inr v \<Rightarrow> [v]) rs)))"

text \<open>
  \<open>flatMessages.sort((a, b) => b.timestamp - a.timestamp)\<close>. The sort is stable, and
  the comparator puts \<open>a\<close> behind \<open>b\<close> exactly when \<open>b.timestamp > a.timestamp\<close>
  (a difference that is NaN counts as zero), which is what the insertion below does.
  Where a timestamp is NaN the comparator is not a consistent order and the language
  leaves the order of the result to the implementation: on such a list the function below
  need not give the order of the runtime, and what is stated about the order of the
  sorted list is stated for lists without a NaN timestamp.
\<close>

fun insert_desc :: "MessageWithTimestamp \<Rightarrow> MessageWithTimestamp list \<Rightarrow> MessageWithTimestamp list" where
  "insert_desc a [] = [a]"
| "insert_desc a (b # bs) =
     (if js_gt (timestamp b) (timestamp a) then b # insert_desc a bs else a # b # bs)"

definition sort_desc :: "MessageWithTimestamp list \<Rightarrow> MessageWithTimestamp list" where
  "sort_desc ms = foldr insert_desc ms []"

text \<open>
  The weighting loop, with \<open>weightedMessages\<close> as the accumulator and the two
  thresholds as arguments (\<open>oneDayAgo\<close> and \<open>oneWeekAgo\<close> in \<open>route.ts\<close>,
  \<open>oneHourAgo\<close> and \<open>sixHoursAgo\<close> in the second copy).
\<close>

fun weight_loop :: "jsnum \<Rightarrow> jsnum \<Rightarrow> jstr list \<Rightarrow> MessageWithTimestamp list \<Rightarrow> jstr list" where
  "weight_loop recent older weightedMessages [] = weightedMessages"
| "weight_loop recent older weightedMessages (msg # rest) =
     weight_loop recent older
       (if js_gt (timestamp msg) recent
          then weightedMessages @ [msg_text msg, msg_text msg, msg_text msg]
        else if js_gt (timestamp msg) older
          then weightedMessages @ [msg_text msg, msg_text msg]
        else weightedMessages @ [msg_text msg])
       rest"

definition channelIds :: "world \<Rightarrow> jstr list" where
  "channelIds w = map trim (split (cu CHR '','') (SLACK_CHANNEL_IDS w))"

text \<open>
  \<open>fetchSlackFromMultipleChannels\<close> of \<open>route.ts\<close> and of the second copy. The
  reading of the clock is a whole number, which is a double as it stands (a time value is
  at most \<open>8.64e15\<close> in magnitude); \<open>Date.now() / 1000\<close> and the two subtractions
  are operations on doubles, each rounded. The products \<open>24 * 60 * 60\<close> and the like
  are whole numbers and exact.
\<close>

definition fetchSlackFromMultipleChannels :: "world \<Rightarrow> exn + jstr list" where
  "fetchSlackFromMultipleChannels w =
     (case promise_all (settled_at w) (map (fetchSlackMessagesFromChannel w) (channelIds w)) of
        Inl e \<Rightarrow> Inl e
      | Inr allMessages \<Rightarrow>
          (let flatMessages = sort_desc (concat allMessages);
               now = js_divide (to_double (real_of_int (now_weighting w))) 1000;
               oneDayAgo = js_minus now (24 * 60 * 60);
               oneWeekAgo = js_minus now (7 * 24 * 60 * 60)
           in Inr (weight_loop oneDayAgo oneWeekAgo [] flatMessages)))"

definition fetchSlackFromMultipleChannels_part000 :: "world \<Rightarrow> exn + jstr list" where
  "fetchSlackFromMultipleChannels_part000 w =
     (case promise_all (settled_at w)
             (map (fetchSlackMessagesFromChannel_part000 w) (channelIds w)) of
        Inl e \<Rightarrow> Inl e
      | Inr allMessages \<Rightarrow>
          (let flatMessages = sort_desc (concat allMessages);
               now = js_divide (to_double (real_of_int (now_weighting w))) 1000;
               oneHourAgo = js_minus now (60 * 60);
               sixHoursAgo = js_minus now (6 * 60 * 60)
           in Inr (weight_loop oneHourAgo sixHoursAgo [] flatMessages)))"

text \<open>The number of times the loop appends the text of a message.\<close>

definition tier_weight :: "jsnum \<Rightarrow> jsnum \<Rightarrow> jsnum \<Rightarrow> nat" where
  "tier_weight recent older t =
     (if js_gt t recent then 3 else if js_gt t older then 2 else 1)"

section \<open>The classifier adapter and the endpoint\<close>

text \<open>
  The translation of \<open>top_emojis\<close>: every call of
  \<open>convertSlackEmojiToUnicode\<close> reads the cache before any of them writes it, and
  all receive the same answer of \<open>emoji.list\<close>; the cache is as one call leaves it.
\<close>

definition convert_all ::
  "(jstr \<rightharpoonup> jstr) \<Rightarrow> world \<Rightarrow> emoji_state \<Rightarrow> jstr list \<Rightarrow> jstr jsval list \<times> emoji_state" where
  "convert_all table w st emojis =
     (map (convertSlackEmojiToUnicode table (emoji_list w) (now_emoji_check w)
             (now_emoji_stored w) st) emojis,
      if emojis = [] then st
      else snd (fetchSlackEmojis table (emoji_list w) (now_emoji_check w) (now_emoji_stored w) st))"

text \<open>The two checks on the answer that both copies make before parsing.\<close>

definition oracle_content :: "completion_body \<Rightarrow> exn + jstr \<times> parsed_content" where
  "oracle_content data =
     (case api_error data of
        Some e \<Rightarrow>
          Inl (Error (js ''OpenAI API error: '' @
            (case message e of
               Some m \<Rightarrow> if m \<noteq> [] then m else stringified e
             | None \<Rightarrow> stringified e)))
      | None \<Rightarrow>
          (case content data of
             None \<Rightarrow> Inl (Error (js ''OpenAI returned no content''))
           | Some (c, p) \<Rightarrow>
               if c = [] then Inl (Error (js ''OpenAI returned no content'')) else Inr (c, p)))"

text \<open>
  The statements after the checks: \<open>JSON.parse(content)\<close>, whose result is \<open>p\<close>,
  then the translation of \<open>top_emojis\<close>. The cache is written only when the
  translation runs.
\<close>

definition parse_and_convert ::
  "(jstr \<rightharpoonup> jstr) \<Rightarrow> world \<Rightarrow> emoji_state \<Rightarrow> parsed_content
     \<Rightarrow> (exn + (jstr jsval) MoodAnalysis) \<times> emoji_state" where
  "parse_and_convert table w st p =
     (case p of
        NotJSON m \<Rightarrow> (Inl (SyntaxError m), st)
      | NoTopEmojis m \<Rightarrow> (Inl (TypeError m), st)
      | Analysis parsed \<Rightarrow>
          (let (converted, st') = convert_all table w st (top_emojis parsed)
           in (Inr \<lparr>mood_score = mood_score parsed, mood_label = mood_label parsed,
                    summary = summary parsed, positive_signals = positive_signals parsed,
                    negative_signals = negative_signals parsed, top_emojis = converted\<rparr>, st')))"

text \<open>
  \<open>analyzeWithOpenAI\<close> of \<open>route.ts\<close>: whatever the \<open>try\<close> block throws is
  replaced by one error that quotes the first 100 code units of the content.
\<close>

definition analyzeWithOpenAI ::
  "world \<Rightarrow> emoji_state \<Rightarrow> jstr list \<Rightarrow> (exn + (jstr jsval) MoodAnalysis) \<times> emoji_state" where
  "analyzeWithOpenAI w st msgs =
     (case oracle_content (chat_completions w msgs) of
        Inl e \<Rightarrow> (Inl e, st)
      | Inr (c, p) \<Rightarrow>
          (case parse_and_convert (map_of getBasicEmojiMap) w st p of
             (Inl parseError, st') \<Rightarrow>
               (Inl (Error (js ''Failed to parse OpenAI response as JSON: '' @ take 100 c @ js ''...'')),
                st')
           | (Inr parsed, st') \<Rightarrow> (Inr parsed, st')))"

text \<open>
  \<open>analyzeWithAI\<close> of the second copy: there is no \<open>try\<close>, so what
  \<open>JSON.parse\<close> or the translation throws leaves the function as it is.
\<close>

definition analyzeWithAI ::
  "world \<Rightarrow> emoji_state \<Rightarrow> jstr list \<Rightarrow> (exn + (jstr jsval) MoodAnalysis) \<times> emoji_state" where
  "analyzeWithAI w st msgs =
     (case oracle_content (chat_completions w msgs) of
        Inl e \<Rightarrow> (Inl e, st)
      | Inr (c, p) \<Rightarrow> parse_and_convert (map_of getBasicEmojiMap_part000) w st p)"

record MoodResponse =
  mood :: "(jstr jsval) MoodAnalysis"
  playlist :: "Playlist jsval option"
  sample_size :: nat
  generated_at :: jstr

datatype body = MoodBody MoodResponse | ErrorBody jstr

datatype response = Response (status: nat) (body: body)

text \<open>\<open>String(e.message || e)\<close>: an error without a message prints as its name.\<close>

fun error_text :: "exn \<Rightarrow> jstr" where
  "error_text (Error m) = (if m \<noteq> [] then m else js ''Error'')"
| "error_text (SyntaxError m) = (if m \<noteq> [] then m else js ''SyntaxError'')"
| "error_text (TypeError m) = (if m \<noteq> [] then m else js ''TypeError'')"

text \<open>The \<open>catch\<close> of \<open>GET\<close>.\<close>

definition error_response :: "exn \<Rightarrow> response" where
  "error_response e = Response 500 (ErrorBody (error_text e))"

definition GET :: "world \<Rightarrow> emoji_state \<Rightarrow> response \<times> emoji_state" where
  "GET w st =
     (case fetchSlackFromMultipleChannels w of
        Inl e \<Rightarrow> (error_response e, st)
      | Inr msgs \<Rightarrow>
          (case analyzeWithOpenAI w st msgs of
             (Inl e, st') \<Rightarrow> (error_response e, st')
           | (Inr m, st') \<Rightarrow>
               (Response 200 (MoodBody
                  \<lparr>mood = m, playlist = playlistsForMood (mood_label m),
                   sample_size = length msgs, generated_at = now_iso w\<rparr>), st')))"

definition GET_part000 :: "world \<Rightarrow> emoji_state \<Rightarrow> response \<times> emoji_state" where
  "GET_part000 w st =
     (case fetchSlackFromMultipleChannels_part000 w of
        Inl e \<Rightarrow> (error_response e, st)
      | Inr msgs \<Rightarrow>
          (case analyzeWithAI w st msgs of
             (Inl e, st') \<Rightarrow> (error_response e, st')
           | (Inr m, st') \<Rightarrow>
               (Response 200 (MoodBody
                  \<lparr>mood = m, playlist = playlistsForMood_part000 (mood_label m),
                   sample_size = length msgs, generated_at = now_iso w\<rparr>), st')))"

section \<open>Example runs\<close>

text \<open>A text between double quotes, as JSON writes a string without escapes.\<close>

definition dq :: "jstr \<Rightarrow> jstr" where
  "dq s = 0x22 # s @ [0x22]"

text \<open>
  Two channels with one message each: the message of \<open>CA\<close> is posted at the time of
  the request, that of \<open>CB\<close> two hours before. The completion service answers with the
  JSON text of an analysis labelled \<open>Vibes\<close>. \<open>demo_parseFloat\<close> is
  \<open>parseFloat\<close> on the timestamps of the examples, each the double nearest to the
  decimal number written; no example calls it on another text.
\<close>

definition msg_A :: slack_message where
  "msg_A = \<lparr>m_type = Some (js ''message''), m_subtype = None, m_bot_id = None,
             m_files = None, m_text = Some (js ''we shipped it''),
             m_ts = Some (js ''1000000''), m_reactions = None\<rparr>"

definition msg_B :: slack_message where
  "msg_B = \<lparr>m_type = Some (js ''message''), m_subtype = None, m_bot_id = None,
             m_files = None, m_text = Some (js ''so tired today''),
             m_ts = Some (js ''992800''), m_reactions = None\<rparr>"

definition demo_parseFloat :: "jstr \<Rightarrow> jsnum" where
  "demo_parseFloat s =
     (if s = js ''1000000'' then to_double 1000000
      else if s = js ''996400'' then to_double 996400
      else if s = js ''992800'' then to_double 992800
      else if s = js ''978400'' then to_double 978400
      else if s = js ''913600'' then to_double 913600
      else if s = js ''395200'' then to_double 395200
      else if s = js ''495200.001'' then to_double (495200001 / 1000)
      else NaN)"

definition demo_analysis :: "jstr MoodAnalysis" where
  "demo_analysis =
     \<lparr>mood_score = 82, mood_label = js ''Vibes'', summary = js ''upbeat'',
      positive_signals = [js ''shipping''], negative_signals = [],
      top_emojis = [js '':rocket:'']\<rparr>"

definition demo_content :: jstr where
  "demo_content =
     js ''{'' @ dq (js ''mood_score'') @ js '':82,''
     @ dq (js ''mood_label'') @ js '':'' @ dq (js ''Vibes'') @ js '',''
     @ dq (js ''summary'') @ js '':'' @ dq (js ''upbeat'') @ js '',''
     @ dq (js ''positive_signals'') @ js '':['' @ dq (js ''shipping'') @ js ''],''
     @ dq (js ''negative_signals'') @ js '':[],''
     @ dq (js ''top_emojis'') @ js '':['' @ dq (js '':rocket:'') @ js '']}''"

definition demo_world :: world where
  "demo_world =
     \<lparr>SLACK_CHANNEL_IDS = js ''CA, CB'',
      conversations_history =
        (\<lambda>c. if c = js ''CA'' then \<lparr>ok = True, error = None, messages = Some [msg_A]\<rparr>
             else if c = js ''CB'' then \<lparr>ok = True, error = None, messages = Some [msg_B]\<rparr>
             else \<lparr>ok = False, error = Some (js ''channel_not_found''), messages = None\<rparr>),
      settled_at = (\<lambda>i. i),
      parseFloat = demo_parseFloat,
      now_weighting = 1000000000,
      chat_completions =
        (\<lambda>msgs. \<lparr>api_error = None, content = Some (demo_content, Analysis demo_analysis)\<rparr>),
      emoji_list = EmojiBody True (Some [(js ''shipit'', Str (js ''https://e.moji/shipit.png''))]),
      now_emoji_check = 1000000500,
      now_emoji_stored = 1000000900,
      now_iso = js ''2001-09-09T01:46:40.000Z''\<rparr>"

definition no_cache :: emoji_state where
  "no_cache = \<lparr>emojiCache = None, emojiCacheTime = 0\<rparr>"

text \<open>The same run where the history call of \<open>CB\<close> answers \<open>invalid_auth\<close>.\<close>

definition demo_world_invalid_auth :: world where
  "demo_world_invalid_auth =
     demo_world\<lparr>conversations_history :=
       (\<lambda>c. if c = js ''CB''
            then \<lparr>ok = False, error = Some (js ''invalid_auth''), messages = None\<rparr>
            else conversations_history demo_world c)\<rparr>"

text \<open>The same run where the completion service answers with an error object.\<close>

definition demo_world_rate_limited :: world where
  "demo_world_rate_limited =
     demo_world\<lparr>chat_completions :=
       (\<lambda>msgs. \<lparr>api_error = Some \<lparr>message = Some (js ''rate limited''),
                                         stringified = js ''{message:rate limited}''\<rparr>,
                 content = None\<rparr>)\<rparr>"

text \<open>
  The same run where the answer of the completion service is cut off after
  \<open>{"mood_score":72,"mood_label":\<close>. The text ends where a value is due, and
  \<open>JSON.parse\<close> throws a \<open>SyntaxError\<close> with the message
  \<open>Unexpected end of JSON input\<close>.
\<close>

definition truncated_content :: jstr where
  "truncated_content =
     js ''{'' @ dq (js ''mood_score'') @ js '':72,'' @ dq (js ''mood_label'') @ js '':''"

definition demo_world_truncated :: world where
  "demo_world_truncated =
     demo_world\<lparr>chat_completions :=
       (\<lambda>msgs. \<lparr>api_error = None,
                 content = Some (truncated_content,
                                 NotJSON (js ''Unexpected end of JSON input''))\<rparr>)\<rparr>"

text \<open>
  A run at the same time of the clock, \<open>1000000\<close> seconds, with five messages: one
  posted at that time, and one at each of the four thresholds, which are one hour, six
  hours, one day and one week before.
\<close>

definition plain_message :: "jstr \<Rightarrow> jstr \<Rightarrow> slack_message" where
  "plain_message ts txt =
     \<lparr>m_type = Some (js ''message''), m_subtype = None, m_bot_id = None,
      m_files = None, m_text = Some txt, m_ts = Some ts, m_reactions = None\<rparr>"

definition demo_world_tiers :: world where
  "demo_world_tiers =
     demo_world\<lparr>conversations_history :=
       (\<lambda>c. if c = js ''CA''
            then \<lparr>ok = True, error = None,
                  messages = Some [plain_message (js ''913600'') (js ''a day ago''),
                                   plain_message (js ''1000000'') (js ''just now'')]\<rparr>
            else if c = js ''CB''
            then \<lparr>ok = True, error = None,
                  messages = Some [plain_message (js ''996400'') (js ''an hour ago''),
                                   plain_message (js ''395200'') (js ''a week ago''),
                                   plain_message (js ''978400'') (js ''six hours ago'')]\<rparr>
            else \<lparr>ok = False, error = Some (js ''channel_not_found''), messages = None\<rparr>)\<rparr>"

text \<open>
  A run in which the arithmetic rounds: the clock reads \<open>1100000001\<close> milliseconds and
  the one message has the timestamp \<open>495200.001\<close>, in decimal numbers exactly one week
  before.
\<close>

definition demo_world_rounding :: world where
  "demo_world_rounding =
     demo_world\<lparr>SLACK_CHANNEL_IDS := js ''CA'',
       conversations_history :=
         (\<lambda>c. \<lparr>ok = True, error = None,
                 messages = Some [plain_message (js ''495200.001'') (js ''a week ago'')]\<rparr>),
       now_weighting := 1100000001\<rparr>"

definition demo_mood :: "(jstr jsval) MoodAnalysis" where
  "demo_mood =
     \<lparr>mood_score = 82, mood_label = js ''Vibes'', summary = js ''upbeat'',
      positive_signals = [js ''shipping''], negative_signals = [],
      top_emojis = [Val [0xD83D, 0xDE80]]\<rparr>"

definition demo_mood_part000 :: "(jstr jsval) MoodAnalysis" where
  "demo_mood_part000 = demo_mood\<lparr>top_emojis := [Val [0x011F, 0x0178, 0x0161, 0x20AC]]\<rparr>"

definition demo_response :: MoodResponse where
  "demo_response =
     \<lparr>mood = demo_mood,
      playlist = Some (Val \<lparr>name = js ''Office Party Bangers'',
                   url = js ''https://open.spotify.com/playlist/37i9dQZF1DXaXB8fQg7xif''\<rparr>),
      sample_size = 6,
      generated_at = js ''2001-09-09T01:46:40.000Z''\<rparr>"

definition demo_response_part000 :: MoodResponse where
  "demo_response_part000 = demo_response\<lparr>mood := demo_mood_part000, sample_size := 5\<rparr>"

section \<open>Vocabulary of the claims on the lookups\<close>

text \<open>The five labels of \<open>MoodAnalysis["mood_label"]\<close>.\<close>

definition mood_labels :: "jstr list" where
  "mood_labels = [js ''Chaos'', js ''Stressed'', js ''Neutral'', js ''Good'', js ''Vibes'']"

text \<open>
  A well-formed link: \<open>https://\<close>, then a host and a path without white space and
  with a slash after the host.
\<close>

definition well_formed_url :: "jstr \<Rightarrow> bool" where
  "well_formed_url u =
     (startsWith u (js ''https://'')
      \<and> cu CHR ''/'' \<in> set (drop 9 u)
      \<and> list_all (\<lambda>c. \<not> is_space c) u)"

definition neutral_playlist :: Playlist where
  "neutral_playlist =
     \<lparr>name = js ''Easy Indie'',
      url = js ''https://open.spotify.com/playlist/37i9dQZF1DX2Nc3B70tvx0''\<rparr>"

text \<open>
  A fetched directory in which \<open>thanks\<close> is an alias of \<open>prayer\<close>, listed before
  \<open>prayer\<close>, itself an alias of the standard \<open>pray\<close>; and the directory of the
  same entries in which \<open>prayer\<close> is listed before \<open>thanks\<close>.
\<close>

definition demo_directory :: "(jstr \<times> emoji_value) list" where
  "demo_directory =
     [(js ''shipit'', Str (js ''https://e.moji/shipit.png'')),
      (js ''thanks'', Str (js ''alias:prayer'')),
      (js ''prayer'', Str (js ''alias:pray''))]"

definition demo_directory_reordered :: "(jstr \<times> emoji_value) list" where
  "demo_directory_reordered =
     [(js ''shipit'', Str (js ''https://e.moji/shipit.png'')),
      (js ''prayer'', Str (js ''alias:pray'')),
      (js ''thanks'', Str (js ''alias:prayer''))]"

section \<open>Evaluation\<close>

declare replace_g.simps(2) [simp del]

declare bit_length.simps [simp del]

lemmas double_eval =
  to_double_def ulp_exponent_def round_half_even_def pow2_def bit_length.simps Let_def

lemmas clean_eval =
  cleanSlackText_def cleanSlackText_part000_def strip_markup_def trim_def re_spaces_def
  is_space_def re_emoji_code_def emoji_name_char_def re_bracket_def re_literal_def
  startsWith_def emoji_code_def markup_free_def replace_g.simps Let_def

section \<open>Properties of the replacement and of the white space steps\<close>



lemma replace_g_no_match: "\<not> matches_in m s \<Longrightarrow> replace_g m rep s = s"
  by (induction s) (auto simp: replace_g.simps)

lemma collapse_Cons:
  "replace_g re_spaces rep (c # cs) =
     (if is_space c then rep @ replace_g re_spaces rep (dropWhile is_space cs)
      else c # replace_g re_spaces rep cs)"
  by (simp add: re_spaces_def dropWhile_eq_drop replace_g.simps)

lemma ws_normal_Cons_space:
  "ws_normal r \<Longrightarrow> r = [] \<or> \<not> is_space (hd r) \<Longrightarrow> ws_normal (32 # r)"
  by (cases r) auto

lemma ws_normal_Cons_other:
  "ws_normal r \<Longrightarrow> \<not> is_space c \<Longrightarrow> ws_normal (c # r)"
  by (cases r) auto

lemma collapse_hd:
  "s = [] \<or> \<not> is_space (hd s) \<Longrightarrow>
   replace_g re_spaces rep s = [] \<or> \<not> is_space (hd (replace_g re_spaces rep s))"
  by (cases s) (auto simp: collapse_Cons)

lemma ws_normal_collapse: "ws_normal (replace_g re_spaces [32] s)"
proof (induction s rule: length_induct)
  case (1 s)
  show ?case
  proof (cases s)
    case Nil then show ?thesis by simp
  next
    case (Cons c cs)
    show ?thesis
    proof (cases "is_space c")
      case False
      have "ws_normal (replace_g re_spaces [32] cs)" using 1 Cons by simp
      then show ?thesis using False Cons
        by (simp add: collapse_Cons ws_normal_Cons_other)
    next
      case True
      let ?r = "dropWhile is_space cs"
      have len: "length ?r < length s"
        using Cons by (simp add: length_dropWhile_le le_imp_less_Suc)
      have ih: "ws_normal (replace_g re_spaces [32] ?r)" using 1 len by blast
      have "?r = [] \<or> \<not> is_space (hd ?r)" using hd_dropWhile by blast
      then have "replace_g re_spaces [32] ?r = []
                 \<or> \<not> is_space (hd (replace_g re_spaces [32] ?r))"
        by (rule collapse_hd)
      with ih have "ws_normal (32 # replace_g re_spaces [32] ?r)"
        by (rule ws_normal_Cons_space)
      then show ?thesis using True Cons by (simp add: collapse_Cons)
    qed
  qed
qed

lemma collapse_ws_normal: "ws_normal s \<Longrightarrow> replace_g re_spaces [32] s = s"
proof (induction s rule: ws_normal.induct)
  case 1 then show ?case by simp
next
  case (2 c) then show ?case by (simp add: collapse_Cons)
next
  case (3 c d cs)
  then show ?case by (auto simp add: collapse_Cons)
qed

lemma ws_normal_tl: "ws_normal (c # cs) \<Longrightarrow> ws_normal cs"
  by (cases cs) simp_all

lemma ws_normal_dropWhile: "ws_normal s \<Longrightarrow> ws_normal (dropWhile P s)"
  by (induction s) (auto dest: ws_normal_tl)

lemma ws_normal_butlast: "ws_normal s \<Longrightarrow> ws_normal (butlast s)"
  by (induction s rule: ws_normal.induct) (auto split: if_splits)

lemma ws_normal_rev_dropWhile_rev: "ws_normal s \<Longrightarrow> ws_normal (rev (dropWhile P (rev s)))"
proof (induction s rule: rev_induct)
  case Nil then show ?case by simp
next
  case (snoc x xs)
  have "ws_normal xs" using snoc.prems ws_normal_butlast[of "xs @ [x]"] by simp
  then show ?case using snoc by auto
qed

lemma ws_normal_trim: "ws_normal s \<Longrightarrow> ws_normal (trim s)"
  by (simp add: trim_def ws_normal_dropWhile ws_normal_rev_dropWhile_rev)

lemma dropWhile_hd_id: "s = [] \<or> \<not> P (hd s) \<Longrightarrow> dropWhile P s = s"
  by (cases s) auto

lemma dropWhile_rev_id: "s = [] \<or> \<not> P (last s) \<Longrightarrow> dropWhile P (rev s) = rev s"
  by (cases s rule: rev_cases) auto

lemma rtrim_last:
  "rev (dropWhile P (rev t)) = [] \<or> \<not> P (last (rev (dropWhile P (rev t))))"
  by (induction t rule: rev_induct) auto

lemma rtrim_hd:
  "t = [] \<or> \<not> P (hd t) \<Longrightarrow>
   rev (dropWhile P (rev t)) = [] \<or> \<not> P (hd (rev (dropWhile P (rev t))))"
proof (induction t rule: rev_induct)
  case Nil then show ?case by simp
next
  case (snoc x xs)
  show ?case
  proof (cases "P x")
    case False then show ?thesis using snoc.prems by simp
  next
    case True
    then have "xs \<noteq> []" using snoc.prems by auto
    then have "\<not> P (hd xs)" using snoc.prems by simp
    then show ?thesis using snoc.IH True by simp
  qed
qed

lemma trim_ends:
  "trim s = [] \<or> (\<not> is_space (hd (trim s)) \<and> \<not> is_space (last (trim s)))"
proof -
  have "dropWhile is_space s = [] \<or> \<not> is_space (hd (dropWhile is_space s))"
    using hd_dropWhile by blast
  then have "trim s = [] \<or> \<not> is_space (hd (trim s))"
    unfolding trim_def by (rule rtrim_hd)
  moreover have "trim s = [] \<or> \<not> is_space (last (trim s))"
    unfolding trim_def by (rule rtrim_last)
  ultimately show ?thesis by blast
qed

lemma trim_idem: "trim (trim s) = trim s"
proof -
  have 1: "dropWhile is_space (trim s) = trim s"
    using trim_ends[of s] by (intro dropWhile_hd_id) blast
  have 2: "dropWhile is_space (rev (trim s)) = rev (trim s)"
    using trim_ends[of s] by (intro dropWhile_rev_id) blast
  show ?thesis unfolding trim_def[of "trim s"] by (simp add: 1 2)
qed

lemma ws_tail_idem:
  "trim (replace_g re_spaces [32] (trim (replace_g re_spaces [32] s))) = trim (replace_g re_spaces [32] s)"
  by (simp add: collapse_ws_normal ws_normal_trim ws_normal_collapse trim_idem)

subsection \<open>Texts that the markup steps leave alone\<close>


lemma startsWith_split: "startsWith s p \<Longrightarrow> s = p @ drop (length p) s"
  by (metis append_take_drop_id startsWith_def)

lemma re_bracket_sub:
  assumes q: "cu CHR ''>'' \<notin> set q" and m: "re_bracket (cu CHR ''<'' # q) s \<noteq> 0"
  shows "re_bracket [cu CHR ''<''] s \<noteq> 0"
proof -
  let ?p = "cu CHR ''<'' # q"
  let ?body = "drop (length ?p) s"
  let ?n = "length (takeWhile (\<lambda>c. c \<noteq> cu CHR ''>'') ?body)"
  have sw: "startsWith s ?p" using m by (auto simp: re_bracket_def split: if_splits)
  then have s: "s = ?p @ ?body" by (rule startsWith_split)
  have n: "0 < ?n \<and> ?n < length ?body"
    using m sw by (auto simp: re_bracket_def Let_def split: if_splits)
  have sw1: "startsWith s [cu CHR ''<'']"
    by (subst s) (simp add: startsWith_def)
  have d1: "drop (length [cu CHR ''<'' :: jchar]) s = q @ ?body"
    by (subst s) simp
  have tw: "takeWhile (\<lambda>c. c \<noteq> cu CHR ''>'') (q @ ?body)
            = q @ takeWhile (\<lambda>c. c \<noteq> cu CHR ''>'') ?body"
    using q by (intro takeWhile_append2) auto
  show ?thesis
    unfolding re_bracket_def Let_def d1 tw using sw1 n by simp
qed

lemma matches_in_mono:
  "(\<And>t. m t \<noteq> 0 \<Longrightarrow> m' t \<noteq> 0) \<Longrightarrow> matches_in m s \<Longrightarrow> matches_in m' s"
  by (induction s) auto

lemma no_bracket_at: "\<not> matches_in (re_bracket (js ''<'')) s \<Longrightarrow> \<not> matches_in (re_bracket (js ''<@'')) s"
  using matches_in_mono[of "re_bracket (js ''<@'')" "re_bracket (js ''<'')" s]
        re_bracket_sub[of "js ''@''"] by auto

lemma no_bracket_http: "\<not> matches_in (re_bracket (js ''<'')) s \<Longrightarrow> \<not> matches_in (re_bracket (js ''<http'')) s"
  using matches_in_mono[of "re_bracket (js ''<http'')" "re_bracket (js ''<'')" s]
        re_bracket_sub[of "js ''http''"] by auto

lemma strip_markup_id: "markup_free s \<Longrightarrow> strip_markup s = s"
  unfolding markup_free_def strip_markup_def
  by (simp add: replace_g_no_match no_bracket_at no_bracket_http del: list.map)

lemma clean_part000_idem:
  "markup_free (cleanSlackText_part000 t) \<Longrightarrow>
   cleanSlackText_part000 (cleanSlackText_part000 t) = cleanSlackText_part000 t"
proof -
  assume h: "markup_free (cleanSlackText_part000 t)"
  have "cleanSlackText_part000 (cleanSlackText_part000 t)
        = trim (replace_g re_spaces (js '' '') (cleanSlackText_part000 t))"
    unfolding cleanSlackText_part000_def[of "cleanSlackText_part000 t"]
    by (simp only: strip_markup_id[OF h])
  also have "\<dots> = cleanSlackText_part000 t"
    unfolding cleanSlackText_part000_def using ws_tail_idem by simp
  finally show ?thesis .
qed

lemma clean_idem:
  assumes h: "markup_free (cleanSlackText t)"
      and e: "\<not> matches_in re_emoji_code (cleanSlackText t)"
  shows "cleanSlackText (cleanSlackText t) = cleanSlackText t"
proof -
  have "cleanSlackText (cleanSlackText t)
        = trim (replace_g re_spaces (js '' '') (cleanSlackText t))"
    unfolding cleanSlackText_def[of "cleanSlackText t"]
    by (simp only: strip_markup_id[OF h] replace_g_no_match[OF e])
  also have "\<dots> = cleanSlackText t"
    unfolding cleanSlackText_def using ws_tail_idem by simp
  finally show ?thesis .
qed

section \<open>Properties of the double arithmetic\<close>

text \<open>
  A whole number of magnitude less than \<open>2 ^ 53\<close> is a double as it stands: so are
  the readings of the clock, and the products of whole numbers in the source.
\<close>

lemma bit_length_le: "n < 2 ^ k \<Longrightarrow> bit_length n \<le> k"
proof (induction k arbitrary: n)
  case 0
  then show ?case by (simp add: bit_length.simps)
next
  case (Suc k)
  show ?case
  proof (cases "n = 0")
    case True then show ?thesis by (simp add: bit_length.simps)
  next
    case False
    have "n div 2 < 2 ^ k" using Suc.prems by simp
    then have "bit_length (n div 2) \<le> k" by (rule Suc.IH)
    then show ?thesis using False bit_length.simps [of n] by simp
  qed
qed

lemma round_half_even_of_int: "round_half_even (of_int z) = z"
  by (simp add: round_half_even_def)

lemma to_double_whole_pos:
  assumes "0 < n" and "n < 2 ^ 53"
  shows "to_double (real_of_int n) = Fin (real_of_int n)"
proof -
  let ?k = "bit_length (nat n)"
  have k: "?k \<le> 53" using assms by (intro bit_length_le) (simp add: nat_less_iff)
  have a: "1 \<le> real_of_int n" using assms by simp
  have e: "ulp_exponent (real_of_int n) = int ?k - 53"
    using a by (simp add: ulp_exponent_def)
  have p: "pow2 (int ?k - 53) = 1 / 2 ^ (53 - ?k)"
  proof (cases "?k = 53")
    case True then show ?thesis by (simp add: pow2_def)
  next
    case False
    then have "int ?k - 53 < 0" using k by simp
    moreover have "nat (53 - int ?k) = 53 - ?k" by simp
    ultimately show ?thesis by (simp add: pow2_def)
  qed
  have d: "real_of_int n / pow2 (int ?k - 53) = of_int (n * 2 ^ (53 - ?k))"
    unfolding p by simp
  have y: "of_int (round_half_even (real_of_int n / pow2 (int ?k - 53))) * pow2 (int ?k - 53)
      = real_of_int n"
    unfolding d round_half_even_of_int unfolding p by simp
  have "real_of_int n < 2 ^ 53" using assms(2) by (metis of_int_less_numeral_power_cancel_iff)
  also have "(2::real) ^ 53 \<le> 2 ^ 1024" by simp
  finally have b: "\<not> (2::real) ^ 1024 \<le> real_of_int n" by simp
  show ?thesis
    using assms(1) a b unfolding to_double_def Let_def
    by (simp add: e y abs_of_pos del: of_int_pos)
qed

lemma to_double_neg:
  "to_double (- x) =
     (case to_double x of
        Fin y \<Rightarrow> Fin (- y) | PosInf \<Rightarrow> NegInf | NegInf \<Rightarrow> PosInf | NaN \<Rightarrow> NaN)"
  unfolding to_double_def Let_def by (cases "x = 0"; cases "0 < x") auto

lemma to_double_whole:
  assumes "\<bar>n\<bar> < 2 ^ 53"
  shows "to_double (real_of_int n) = Fin (real_of_int n)"
proof -
  consider "n = 0" | "0 < n" | "n < 0" by linarith
  then show ?thesis
  proof cases
    case 1 then show ?thesis by (simp add: to_double_def)
  next
    case 2 then show ?thesis using assms by (intro to_double_whole_pos) simp_all
  next
    case 3
    then have "to_double (real_of_int (- n)) = Fin (real_of_int (- n))"
      using assms by (intro to_double_whole_pos) simp_all
    then show ?thesis using to_double_neg [of "real_of_int (- n)"] by simp
  qed
qed

section \<open>Properties of the aggregator\<close>

lemma weight_loop_acc:
  "weight_loop recent older acc msgs =
     acc @ concat (map (\<lambda>m. replicate (tier_weight recent older (timestamp m)) (msg_text m)) msgs)"
  by (induction msgs arbitrary: acc) (simp_all add: tier_weight_def numeral_3_eq_3 numeral_2_eq_2)

lemma length_weight_loop:
  "length (weight_loop recent older [] msgs) =
     (\<Sum>m\<leftarrow>msgs. tier_weight recent older (timestamp m))"
  by (simp add: weight_loop_acc length_concat comp_def)

lemma tier_weight_cases:
  "tier_weight (Fin recent) (Fin older) t =
     (case t of
        Fin x \<Rightarrow> if recent < x then 3 else if older < x then 2 else 1
      | PosInf \<Rightarrow> 3
      | _ \<Rightarrow> 1)"
  by (cases t) (simp_all add: tier_weight_def)

text \<open>
  A timestamp that equals a threshold is not greater than it; nothing is greater than
  NaN and NaN is greater than nothing.
\<close>

lemma js_gt_irrefl: "\<not> js_gt t t"
  by (cases t) simp_all

lemma js_gt_NaN: "\<not> js_gt NaN t" "\<not> js_gt t NaN"
  by (cases t; simp)+

text \<open>
  The sort: the sorted list holds the messages of the list, each as often, and on a list
  without a NaN timestamp no message comes before one with a greater timestamp.
\<close>

lemma mset_insert_desc: "mset (insert_desc a ms) = add_mset a (mset ms)"
  by (induction ms) simp_all

lemma mset_sort_desc: "mset (sort_desc ms) = mset ms"
  unfolding sort_desc_def by (induction ms) (simp_all add: mset_insert_desc)

lemma set_sort_desc: "set (sort_desc ms) = set ms"
  using mset_sort_desc by (metis set_mset_mset)

lemma js_gt_trans_le:
  assumes "a \<noteq> NaN" "b \<noteq> NaN" "c \<noteq> NaN"
    and "\<not> js_gt c b" and "\<not> js_gt b a"
  shows "\<not> js_gt c a"
  using assms by (cases a; cases b; cases c) simp_all

lemma js_gt_asym: "js_gt b a \<Longrightarrow> \<not> js_gt a b"
  by (cases a; cases b) simp_all

lemma sorted_insert_desc:
  assumes "sorted_wrt (\<lambda>x y. \<not> js_gt (timestamp y) (timestamp x)) ms"
    and "timestamp a \<noteq> NaN" and "\<forall>m \<in> set ms. timestamp m \<noteq> NaN"
  shows "sorted_wrt (\<lambda>x y. \<not> js_gt (timestamp y) (timestamp x)) (insert_desc a ms)"
  using assms
proof (induction ms)
  case Nil then show ?case by simp
next
  case (Cons b bs)
  show ?case
  proof (cases "js_gt (timestamp b) (timestamp a)")
    case True
    have "set (insert_desc a bs) = insert a (set bs)"
      using mset_insert_desc [of a bs] by (metis set_mset_add_mset_insert set_mset_mset)
    moreover have "\<not> js_gt (timestamp a) (timestamp b)" using True by (rule js_gt_asym)
    ultimately show ?thesis using True Cons by auto
  next
    case False
    have "\<not> js_gt (timestamp y) (timestamp a)" if "y \<in> set bs" for y
    proof -
      have "\<not> js_gt (timestamp y) (timestamp b)" using Cons.prems(1) that by simp
      then show ?thesis
        using js_gt_trans_le [of "timestamp a" "timestamp b" "timestamp y"] False Cons.prems that
        by simp
    qed
    then show ?thesis using False Cons.prems(1) by simp
  qed
qed

lemma sorted_sort_desc:
  "\<forall>m \<in> set ms. timestamp m \<noteq> NaN \<Longrightarrow>
   sorted_wrt (\<lambda>x y. \<not> js_gt (timestamp y) (timestamp x)) (sort_desc ms)"
proof (induction ms)
  case Nil then show ?case by (simp add: sort_desc_def)
next
  case (Cons a ms)
  have "sorted_wrt (\<lambda>x y. \<not> js_gt (timestamp y) (timestamp x)) (insert_desc a (sort_desc ms))"
    using Cons set_sort_desc [of ms] by (intro sorted_insert_desc) simp_all
  then show ?case by (simp add: sort_desc_def)
qed

text \<open>
  The weighted sequence as a multiset: whatever the order of the sort, it holds the text
  of each message as often as the weight of the message says.
\<close>

lemma mset_concat_map:
  "mset (concat (map f xs)) = (\<Sum>x\<in>#mset xs. mset (f x))"
  by (induction xs) simp_all

lemma mset_weight_loop:
  "mset (weight_loop recent older [] (sort_desc ms)) =
     (\<Sum>m\<in>#mset ms. replicate_mset (tier_weight recent older (timestamp m)) (msg_text m))"
  by (simp add: weight_loop_acc mset_concat_map mset_sort_desc)

lemma sum_list_insert_desc:
  "(\<Sum>m\<leftarrow>insert_desc a ms. (f m :: nat)) = f a + (\<Sum>m\<leftarrow>ms. f m)"
  by (induction ms) simp_all

lemma sum_list_sort_desc: "(\<Sum>m\<leftarrow>sort_desc ms. (f m :: nat)) = (\<Sum>m\<leftarrow>ms. f m)"
  unfolding sort_desc_def by (induction ms) (simp_all add: sum_list_insert_desc)

lemma first_rejection_Some:
  "first_rejection rank i rs = Some (t, e) \<Longrightarrow> Inl e \<in> set rs"
proof (induction rs arbitrary: i t e)
  case Nil then show ?case by simp
next
  case (Cons r rs)
  show ?case
  proof (cases r)
    case (Inr v) then show ?thesis using Cons by auto
  next
    case (Inl e0)
    then show ?thesis using Cons.prems Cons.IH
      by (auto split: option.splits if_splits)
  qed
qed
lemma first_rejection_None:
  "first_rejection rank i rs = None \<longleftrightarrow> (\<forall>r \<in> set rs. \<exists>v. r = Inr v)"
proof (induction rs arbitrary: i)
  case Nil then show ?case by simp
next
  case (Cons r rs)
  show ?case
  proof (cases r)
    case (Inl e) then show ?thesis by (auto split: option.splits)
  next
    case (Inr v) then show ?thesis using Cons by auto
  qed
qed
lemma promise_all_rejected:
  assumes "Inl e0 \<in> set rs"
  shows "\<exists>e. Inl e \<in> set rs \<and> promise_all rank rs = Inl e"
proof (cases "first_rejection rank 0 rs")
  case None
  then show ?thesis using assms first_rejection_None[of rank 0 rs] by auto
next
  case (Some p)
  obtain t e where p: "p = (t, e)" by (cases p)
  then have "Inl e \<in> set rs" using Some first_rejection_Some by blast
  then show ?thesis using Some p by (auto simp: promise_all_def)
qed

lemma fetch_channel_Inl:
  "fetchSlackMessagesFromChannel w c = Inl e \<longleftrightarrow>
     (\<not> ok (conversations_history w c) \<and> e = Error (slack_error c (conversations_history w c)))"
  by (cases "ok (conversations_history w c)")
     (auto simp add: fetchSlackMessagesFromChannel_def Let_def)

lemma fetch_channel_part000_Inl:
  "fetchSlackMessagesFromChannel_part000 w c = Inl e \<longleftrightarrow>
     (\<not> ok (conversations_history w c) \<and> e = Error (slack_error c (conversations_history w c)))"
  by (cases "ok (conversations_history w c)")
     (auto simp add: fetchSlackMessagesFromChannel_part000_def Let_def)

lemma slack_error_nonempty: "slack_error c d \<noteq> []"
  by (simp add: slack_error_def)

lemma aggregation_aborts:
  assumes c: "c \<in> set (channelIds w)" and bad: "\<not> ok (conversations_history w c)"
  shows "\<exists>c' \<in> set (channelIds w). \<not> ok (conversations_history w c') \<and>
           fetchSlackFromMultipleChannels w
             = Inl (Error (slack_error c' (conversations_history w c')))"
proof -
  let ?rs = "map (fetchSlackMessagesFromChannel w) (channelIds w)"
  have "fetchSlackMessagesFromChannel w c
          = Inl (Error (slack_error c (conversations_history w c)))"
    using bad fetch_channel_Inl by blast
  then have "Inl (Error (slack_error c (conversations_history w c))) \<in> set ?rs"
    using c by (metis image_eqI list.set_map)
  then obtain e where e: "Inl e \<in> set ?rs" "promise_all (settled_at w) ?rs = Inl e"
    using promise_all_rejected by blast
  from e(1) obtain c' where c': "c' \<in> set (channelIds w)"
      "fetchSlackMessagesFromChannel w c' = Inl e"
    by (metis (no_types, lifting) image_iff list.set_map)
  have 1: "\<not> ok (conversations_history w c')"
    and 2: "e = Error (slack_error c' (conversations_history w c'))"
    using c'(2) fetch_channel_Inl by blast+
  have "fetchSlackFromMultipleChannels w = Inl e"
    unfolding fetchSlackFromMultipleChannels_def e(2) by simp
  then show ?thesis using c'(1) 1 2 by blast
qed

lemma aggregation_ok:
  "fetchSlackFromMultipleChannels w = Inr msgs \<Longrightarrow>
   \<exists>allMessages.
     promise_all (settled_at w) (map (fetchSlackMessagesFromChannel w) (channelIds w))
       = Inr allMessages \<and>
     msgs = weight_loop
              (js_minus (js_divide (to_double (real_of_int (now_weighting w))) 1000) 86400)
              (js_minus (js_divide (to_double (real_of_int (now_weighting w))) 1000) 604800) []
              (sort_desc (concat allMessages))"
  unfolding fetchSlackFromMultipleChannels_def Let_def
  by (cases "promise_all (settled_at w) (map (fetchSlackMessagesFromChannel w) (channelIds w))")
     simp_all

lemma aggregation_part000_ok:
  "fetchSlackFromMultipleChannels_part000 w = Inr msgs \<Longrightarrow>
   \<exists>allMessages.
     promise_all (settled_at w) (map (fetchSlackMessagesFromChannel_part000 w) (channelIds w))
       = Inr allMessages \<and>
     msgs = weight_loop
              (js_minus (js_divide (to_double (real_of_int (now_weighting w))) 1000) 3600)
              (js_minus (js_divide (to_double (real_of_int (now_weighting w))) 1000) 21600) []
              (sort_desc (concat allMessages))"
  unfolding fetchSlackFromMultipleChannels_part000_def Let_def
  by (cases "promise_all (settled_at w)
               (map (fetchSlackMessagesFromChannel_part000 w) (channelIds w))")
     simp_all

lemma aggregation_result:
  "promise_all (settled_at w) (map (fetchSlackMessagesFromChannel w) (channelIds w))
     = Inr allMessages \<Longrightarrow>
   fetchSlackFromMultipleChannels w =
     Inr (weight_loop
            (js_minus (js_divide (to_double (real_of_int (now_weighting w))) 1000) 86400)
            (js_minus (js_divide (to_double (real_of_int (now_weighting w))) 1000) 604800) []
            (sort_desc (concat allMessages)))"
  unfolding fetchSlackFromMultipleChannels_def Let_def by simp

lemma aggregation_part000_result:
  "promise_all (settled_at w) (map (fetchSlackMessagesFromChannel_part000 w) (channelIds w))
     = Inr allMessages \<Longrightarrow>
   fetchSlackFromMultipleChannels_part000 w =
     Inr (weight_loop
            (js_minus (js_divide (to_double (real_of_int (now_weighting w))) 1000) 3600)
            (js_minus (js_divide (to_double (real_of_int (now_weighting w))) 1000) 21600) []
            (sort_desc (concat allMessages)))"
  unfolding fetchSlackFromMultipleChannels_part000_def Let_def by simp

lemma GET_200:
  assumes "GET w st = (Response 200 (MoodBody r), st')"
  shows "\<exists>msgs. fetchSlackFromMultipleChannels w = Inr msgs
     \<and> analyzeWithOpenAI w st msgs = (Inr (mood r), st') \<and> sample_size r = length msgs"
proof (cases "fetchSlackFromMultipleChannels w")
  case (Inl e)
  then show ?thesis using assms by (simp add: GET_def error_response_def)
next
  case (Inr msgs)
  obtain res st1 where a: "analyzeWithOpenAI w st msgs = (res, st1)"
    by (cases "analyzeWithOpenAI w st msgs")
  show ?thesis
  proof (cases res)
    case (Inl e)
    then show ?thesis using assms Inr a by (simp add: GET_def error_response_def)
  next
    case (Inr m)
    then show ?thesis using assms \<open>fetchSlackFromMultipleChannels w = Inr msgs\<close> a
      by (auto simp add: GET_def)
  qed
qed

lemma GET_part000_200:
  assumes "GET_part000 w st = (Response 200 (MoodBody r), st')"
  shows "\<exists>msgs. fetchSlackFromMultipleChannels_part000 w = Inr msgs
     \<and> analyzeWithAI w st msgs = (Inr (mood r), st') \<and> sample_size r = length msgs"
proof (cases "fetchSlackFromMultipleChannels_part000 w")
  case (Inl e)
  then show ?thesis using assms by (simp add: GET_part000_def error_response_def)
next
  case (Inr msgs)
  obtain res st1 where a: "analyzeWithAI w st msgs = (res, st1)"
    by (cases "analyzeWithAI w st msgs")
  show ?thesis
  proof (cases res)
    case (Inl e)
    then show ?thesis using assms Inr a by (simp add: GET_part000_def error_response_def)
  next
    case (Inr m)
    then show ?thesis using assms \<open>fetchSlackFromMultipleChannels_part000 w = Inr msgs\<close> a
      by (auto simp add: GET_part000_def)
  qed
qed

section \<open>The example runs, evaluated\<close>

text \<open>The whole numbers of the examples are doubles as they stand.\<close>

lemma demo_doubles:
  "to_double 1000000000 = Fin 1000000000"
  "to_double 1000000 = Fin 1000000"
  "to_double 996400 = Fin 996400"
  "to_double 992800 = Fin 992800"
  "to_double 978400 = Fin 978400"
  "to_double 913600 = Fin 913600"
  "to_double 395200 = Fin 395200"
  by (simp_all add: double_eval)

text \<open>
  \<open>1100000.001\<close> and \<open>495200.001\<close> are not doubles: the nearest doubles are
  \<open>4724464029894967 / 2 ^ 32\<close> and \<open>8507471237096669 / 2 ^ 34\<close>, both less
  than the decimal number, the former by more than the latter. The subtractions from the
  former are exact.
\<close>

lemma demo_rounded_down:
  "(4724464029894967 / 2 ^ 32 :: real) < 1100000001 / 1000"
  "(8507471237096669 / 2 ^ 34 :: real) < 495200001 / 1000"
  "(1100000001 / 1000 - 4724464029894967 / 2 ^ 32 :: real)
     > 495200001 / 1000 - 8507471237096669 / 2 ^ 34"
  by simp_all

lemma demo_roundings:
  "to_double 1100000001 = Fin 1100000001"
  "to_double (1100000001 / 1000) = Fin (4724464029894967 / 2 ^ 32)"
  "to_double (4724464029894967 / 2 ^ 32 - 604800) = Fin (4724464029894967 / 2 ^ 32 - 604800)"
  "to_double (4724464029894967 / 2 ^ 32 - 86400) = Fin (4724464029894967 / 2 ^ 32 - 86400)"
  "to_double (4724464029894967 / 2 ^ 32 - 21600) = Fin (4724464029894967 / 2 ^ 32 - 21600)"
  "to_double (4724464029894967 / 2 ^ 32 - 3600) = Fin (4724464029894967 / 2 ^ 32 - 3600)"
  "to_double (495200001 / 1000) = Fin (8507471237096669 / 2 ^ 34)"
  by (simp_all add: double_eval)

lemma demo_parseFloat_values:
  "demo_parseFloat (js ''1000000'') = Fin 1000000"
  "demo_parseFloat (js ''996400'') = Fin 996400"
  "demo_parseFloat (js ''992800'') = Fin 992800"
  "demo_parseFloat (js ''978400'') = Fin 978400"
  "demo_parseFloat (js ''913600'') = Fin 913600"
  "demo_parseFloat (js ''395200'') = Fin 395200"
  "demo_parseFloat (js ''495200.001'') = Fin (8507471237096669 / 2 ^ 34)"
  by (simp_all add: demo_parseFloat_def demo_doubles demo_roundings)

lemma demo_clock:
  "js_divide (to_double (real_of_int 1000000000)) 1000 = Fin 1000000"
  "js_minus (Fin 1000000) 86400 = Fin 913600"
  "js_minus (Fin 1000000) 604800 = Fin 395200"
  "js_minus (Fin 1000000) 3600 = Fin 996400"
  "js_minus (Fin 1000000) 21600 = Fin 978400"
  by (simp_all add: demo_doubles)

lemma demo_channelIds: "channelIds demo_world = [js ''CA'', js ''CB'']"
  by (simp add: channelIds_def demo_world_def trim_def is_space_def Let_def)

lemma demo_fetch_A:
  "fetchSlackMessagesFromChannel demo_world (js ''CA'')
     = Inr [\<lparr>msg_text = js ''we shipped it'', timestamp = Fin 1000000\<rparr>]"
  by (simp add: fetchSlackMessagesFromChannel_def demo_world_def msg_A_def textMessages_def
      ts_of_def text_arg_def demo_parseFloat_values [simplified] clean_eval)

lemma demo_fetch_B:
  "fetchSlackMessagesFromChannel demo_world (js ''CB'')
     = Inr [\<lparr>msg_text = js ''so tired today'', timestamp = Fin 992800\<rparr>]"
  by (simp add: fetchSlackMessagesFromChannel_def demo_world_def msg_B_def textMessages_def
      ts_of_def text_arg_def demo_parseFloat_values [simplified] clean_eval)

lemma demo_fetch_part000_A:
  "fetchSlackMessagesFromChannel_part000 demo_world (js ''CA'')
     = Inr [\<lparr>msg_text = js ''we shipped it'', timestamp = Fin 1000000\<rparr>]"
  by (simp add: fetchSlackMessagesFromChannel_part000_def demo_world_def msg_A_def
      textMessages_def ts_of_def text_arg_def demo_parseFloat_values [simplified] clean_eval)

lemma demo_fetch_part000_B:
  "fetchSlackMessagesFromChannel_part000 demo_world (js ''CB'')
     = Inr [\<lparr>msg_text = js ''so tired today'', timestamp = Fin 992800\<rparr>]"
  by (simp add: fetchSlackMessagesFromChannel_part000_def demo_world_def msg_B_def
      textMessages_def ts_of_def text_arg_def demo_parseFloat_values [simplified] clean_eval)

lemma demo_settled: "settled_at demo_world = (\<lambda>i. i)" "now_weighting demo_world = 1000000000"
  by (simp_all add: demo_world_def)

lemma demo_aggregate:
  "fetchSlackFromMultipleChannels demo_world
     = Inr [js ''we shipped it'', js ''we shipped it'', js ''we shipped it'',
            js ''so tired today'', js ''so tired today'', js ''so tired today'']"
  unfolding fetchSlackFromMultipleChannels_def demo_channelIds
  by (simp add: demo_fetch_A [simplified] demo_fetch_B [simplified] demo_settled
      promise_all_def sort_desc_def demo_doubles Let_def)

lemma demo_aggregate_part000:
  "fetchSlackFromMultipleChannels_part000 demo_world
     = Inr [js ''we shipped it'', js ''we shipped it'', js ''we shipped it'',
            js ''so tired today'', js ''so tired today'']"
  unfolding fetchSlackFromMultipleChannels_part000_def demo_channelIds
  by (simp add: demo_fetch_part000_A [simplified] demo_fetch_part000_B [simplified]
      demo_settled promise_all_def sort_desc_def demo_doubles Let_def)

text \<open>The run with a message at each threshold: what the channels give, unsorted.\<close>

lemma demo_tiers_channelIds: "channelIds demo_world_tiers = [js ''CA'', js ''CB'']"
  using demo_channelIds by (simp add: channelIds_def demo_world_tiers_def)

lemma demo_tiers_settled:
  "settled_at demo_world_tiers = (\<lambda>i. i)" "now_weighting demo_world_tiers = 1000000000"
  by (simp_all add: demo_world_tiers_def demo_world_def)

lemma demo_tiers_fetch_A:
  "fetchSlackMessagesFromChannel demo_world_tiers (js ''CA'')
     = Inr [\<lparr>msg_text = js ''a day ago'', timestamp = Fin 913600\<rparr>,
            \<lparr>msg_text = js ''just now'', timestamp = Fin 1000000\<rparr>]"
  "fetchSlackMessagesFromChannel_part000 demo_world_tiers (js ''CA'')
     = Inr [\<lparr>msg_text = js ''a day ago'', timestamp = Fin 913600\<rparr>,
            \<lparr>msg_text = js ''just now'', timestamp = Fin 1000000\<rparr>]"
  by (simp_all add: fetchSlackMessagesFromChannel_def fetchSlackMessagesFromChannel_part000_def
      demo_world_tiers_def demo_world_def plain_message_def textMessages_def
      ts_of_def text_arg_def demo_parseFloat_values [simplified] clean_eval)

lemma demo_tiers_fetch_B:
  "fetchSlackMessagesFromChannel demo_world_tiers (js ''CB'')
     = Inr [\<lparr>msg_text = js ''an hour ago'', timestamp = Fin 996400\<rparr>,
            \<lparr>msg_text = js ''a week ago'', timestamp = Fin 395200\<rparr>,
            \<lparr>msg_text = js ''six hours ago'', timestamp = Fin 978400\<rparr>]"
  "fetchSlackMessagesFromChannel_part000 demo_world_tiers (js ''CB'')
     = Inr [\<lparr>msg_text = js ''an hour ago'', timestamp = Fin 996400\<rparr>,
            \<lparr>msg_text = js ''a week ago'', timestamp = Fin 395200\<rparr>,
            \<lparr>msg_text = js ''six hours ago'', timestamp = Fin 978400\<rparr>]"
  by (simp_all add: fetchSlackMessagesFromChannel_def fetchSlackMessagesFromChannel_part000_def
      demo_world_tiers_def demo_world_def plain_message_def textMessages_def
      ts_of_def text_arg_def demo_parseFloat_values [simplified] clean_eval)

lemma demo_tiers_all:
  "promise_all (settled_at demo_world_tiers)
     (map (fetchSlackMessagesFromChannel demo_world_tiers) (channelIds demo_world_tiers))
   = Inr [[\<lparr>msg_text = js ''a day ago'', timestamp = Fin 913600\<rparr>,
           \<lparr>msg_text = js ''just now'', timestamp = Fin 1000000\<rparr>],
          [\<lparr>msg_text = js ''an hour ago'', timestamp = Fin 996400\<rparr>,
           \<lparr>msg_text = js ''a week ago'', timestamp = Fin 395200\<rparr>,
           \<lparr>msg_text = js ''six hours ago'', timestamp = Fin 978400\<rparr>]]"
  "promise_all (settled_at demo_world_tiers)
     (map (fetchSlackMessagesFromChannel_part000 demo_world_tiers) (channelIds demo_world_tiers))
   = Inr [[\<lparr>msg_text = js ''a day ago'', timestamp = Fin 913600\<rparr>,
           \<lparr>msg_text = js ''just now'', timestamp = Fin 1000000\<rparr>],
          [\<lparr>msg_text = js ''an hour ago'', timestamp = Fin 996400\<rparr>,
           \<lparr>msg_text = js ''a week ago'', timestamp = Fin 395200\<rparr>,
           \<lparr>msg_text = js ''six hours ago'', timestamp = Fin 978400\<rparr>]]"
  unfolding demo_tiers_channelIds
  by (simp_all add: demo_tiers_fetch_A [simplified] demo_tiers_fetch_B [simplified]
      promise_all_def)

lemma demo_tiers_sorted:
  "sort_desc
     [\<lparr>msg_text = js ''a day ago'', timestamp = Fin 913600\<rparr>,
      \<lparr>msg_text = js ''just now'', timestamp = Fin 1000000\<rparr>,
      \<lparr>msg_text = js ''an hour ago'', timestamp = Fin 996400\<rparr>,
      \<lparr>msg_text = js ''a week ago'', timestamp = Fin 395200\<rparr>,
      \<lparr>msg_text = js ''six hours ago'', timestamp = Fin 978400\<rparr>]
   = [\<lparr>msg_text = js ''just now'', timestamp = Fin 1000000\<rparr>,
      \<lparr>msg_text = js ''an hour ago'', timestamp = Fin 996400\<rparr>,
      \<lparr>msg_text = js ''six hours ago'', timestamp = Fin 978400\<rparr>,
      \<lparr>msg_text = js ''a day ago'', timestamp = Fin 913600\<rparr>,
      \<lparr>msg_text = js ''a week ago'', timestamp = Fin 395200\<rparr>]"
  by (simp add: sort_desc_def)

text \<open>
  The run in which the arithmetic rounds. In decimal numbers the message is exactly one
  week old, and its timestamp equals the threshold of one week; in doubles the clock
  reading in seconds is rounded down by more than the timestamp is, so the timestamp is
  greater than the threshold and \<open>route.ts\<close> appends the text twice.
\<close>

lemma demo_rounding_aggregate:
  "fetchSlackFromMultipleChannels demo_world_rounding
     = Inr [js ''a week ago'', js ''a week ago'']"
proof -
  have c: "channelIds demo_world_rounding = [js ''CA'']"
    by (simp add: channelIds_def demo_world_rounding_def trim_def is_space_def Let_def)
  have f: "fetchSlackMessagesFromChannel demo_world_rounding (js ''CA'')
      = Inr [\<lparr>msg_text = js ''a week ago'', timestamp = Fin (8507471237096669 / 2 ^ 34)\<rparr>]"
    by (simp add: fetchSlackMessagesFromChannel_def demo_world_rounding_def demo_world_def
        plain_message_def textMessages_def ts_of_def text_arg_def
        demo_parseFloat_values [simplified] clean_eval)
  have n: "now_weighting demo_world_rounding = 1100000001"
    "settled_at demo_world_rounding = (\<lambda>i. i)"
    by (simp_all add: demo_world_rounding_def demo_world_def)
  show ?thesis
    unfolding fetchSlackFromMultipleChannels_def c
    by (simp add: f [simplified] n promise_all_def sort_desc_def double_eval)
qed

lemma demo_playlist:
  "playlistsForMood (js ''Vibes'') =
     Some (Val \<lparr>name = js ''Office Party Bangers'',
                 url = js ''https://open.spotify.com/playlist/37i9dQZF1DXaXB8fQg7xif''\<rparr>)"
  "playlistsForMood_part000 (js ''Vibes'') =
     Some (Val \<lparr>name = js ''Office Party Bangers'',
                 url = js ''https://open.spotify.com/playlist/37i9dQZF1DXaXB8fQg7xif''\<rparr>)"
  by (simp_all add: playlistsForMood_def playlistsForMood_part000_def playlists_lookup_def
      obj_get_def playlist_map_def playlist_map_part000_def)

lemma demo_rocket:
  "convertSlackEmojiToUnicode (map_of getBasicEmojiMap) (emoji_list demo_world)
     (now_emoji_check demo_world) (now_emoji_stored demo_world) no_cache (js '':rocket:'')
   = Val [0xD83D, 0xDE80]"
  by (simp add: convertSlackEmojiToUnicode_def fetchSlackEmojis_def demo_world_def no_cache_def
      build_emoji_map_def startsWith_def colons_def obj_get_def map_add_def
      getBasicEmojiMap_def Let_def)

lemma demo_rocket_part000:
  "convertSlackEmojiToUnicode (map_of getBasicEmojiMap_part000) (emoji_list demo_world)
     (now_emoji_check demo_world) (now_emoji_stored demo_world) no_cache (js '':rocket:'')
   = Val [0x011F, 0x0178, 0x0161, 0x20AC]"
  by (simp add: convertSlackEmojiToUnicode_def fetchSlackEmojis_def demo_world_def no_cache_def
      build_emoji_map_def startsWith_def colons_def obj_get_def map_add_def
      getBasicEmojiMap_part000_def Let_def)

lemma demo_content_nonempty: "demo_content \<noteq> []" "truncated_content \<noteq> []"
  by (simp_all add: demo_content_def truncated_content_def)

lemma demo_oracle_content:
  "oracle_content (chat_completions demo_world msgs) = Inr (demo_content, Analysis demo_analysis)"
  by (simp add: oracle_content_def demo_world_def demo_content_nonempty)

lemma demo_analyze:
  "fst (analyzeWithOpenAI demo_world no_cache msgs) = Inr demo_mood"
  unfolding analyzeWithOpenAI_def demo_oracle_content
  by (simp add: parse_and_convert_def convert_all_def demo_analysis_def
      demo_rocket [simplified] demo_mood_def split: prod.splits)

lemma demo_analyze_part000:
  "fst (analyzeWithAI demo_world no_cache msgs) = Inr demo_mood_part000"
  unfolding analyzeWithAI_def demo_oracle_content
  by (simp add: parse_and_convert_def convert_all_def demo_analysis_def
      demo_rocket_part000 [simplified] demo_mood_def demo_mood_part000_def split: prod.splits)

lemma demo_GET: "fst (GET demo_world no_cache) = Response 200 (MoodBody demo_response)"
proof -
  obtain st1 where a: "analyzeWithOpenAI demo_world no_cache
      [js ''we shipped it'', js ''we shipped it'', js ''we shipped it'',
       js ''so tired today'', js ''so tired today'', js ''so tired today'']
      = (Inr demo_mood, st1)"
    using demo_analyze by (metis prod.collapse)
  have l: "mood_label demo_mood = js ''Vibes''" by (simp add: demo_mood_def)
  have i: "now_iso demo_world = js ''2001-09-09T01:46:40.000Z''" by (simp add: demo_world_def)
  show ?thesis
    unfolding GET_def demo_aggregate
    by (simp add: a [simplified] l [simplified] i [simplified] demo_playlist [simplified]
        demo_response_def)
qed

lemma demo_GET_part000:
  "fst (GET_part000 demo_world no_cache) = Response 200 (MoodBody demo_response_part000)"
proof -
  obtain st1 where a: "analyzeWithAI demo_world no_cache
      [js ''we shipped it'', js ''we shipped it'', js ''we shipped it'',
       js ''so tired today'', js ''so tired today'']
      = (Inr demo_mood_part000, st1)"
    using demo_analyze_part000 by (metis prod.collapse)
  have l: "mood_label demo_mood_part000 = js ''Vibes''"
    by (simp add: demo_mood_def demo_mood_part000_def)
  have i: "now_iso demo_world = js ''2001-09-09T01:46:40.000Z''" by (simp add: demo_world_def)
  show ?thesis
    unfolding GET_part000_def demo_aggregate_part000
    by (simp add: a [simplified] l [simplified] i [simplified] demo_playlist [simplified]
        demo_response_def demo_response_part000_def)
qed

section \<open>Properties of the adapter and of the endpoint\<close>

lemma oracle_content_error:
  "api_error d = Some e \<Longrightarrow> message e = Some m \<Longrightarrow> m \<noteq> [] \<Longrightarrow>
   oracle_content d = Inl (Error (js ''OpenAI API error: '' @ m))"
  by (simp add: oracle_content_def)

lemma GET_aggregation_failed:
  "fetchSlackFromMultipleChannels w = Inl e \<Longrightarrow> GET w st = (error_response e, st)"
  by (simp add: GET_def)

lemma GET_oracle_error:
  assumes "fetchSlackFromMultipleChannels w = Inr msgs"
    and "api_error (chat_completions w msgs) = Some e" and "message e = Some m" and "m \<noteq> []"
  shows "GET w st = (Response 500 (ErrorBody (js ''OpenAI API error: '' @ m)), st)"
proof -
  have "analyzeWithOpenAI w st msgs = (Inl (Error (js ''OpenAI API error: '' @ m)), st)"
    unfolding analyzeWithOpenAI_def oracle_content_error [OF assms(2-4)] by simp
  then show ?thesis using assms(1) by (simp add: GET_def error_response_def)
qed

lemma GET_part000_oracle_error:
  assumes "fetchSlackFromMultipleChannels_part000 w = Inr msgs"
    and "api_error (chat_completions w msgs) = Some e" and "message e = Some m" and "m \<noteq> []"
  shows "GET_part000 w st = (Response 500 (ErrorBody (js ''OpenAI API error: '' @ m)), st)"
proof -
  have "analyzeWithAI w st msgs = (Inl (Error (js ''OpenAI API error: '' @ m)), st)"
    unfolding analyzeWithAI_def oracle_content_error [OF assms(2-4)] by simp
  then show ?thesis using assms(1) by (simp add: GET_part000_def error_response_def)
qed

text \<open>
  \<open>route.ts\<close>: whenever the content does not parse, and also when the parsed value has
  no \<open>top_emojis\<close>, the error is the parse failure with the first 100 code units of
  the content.
\<close>

lemma oracle_content_ok:
  "api_error d = None \<Longrightarrow> content d = Some (c, p) \<Longrightarrow> c \<noteq> [] \<Longrightarrow>
   oracle_content d = Inr (c, p)"
  by (simp add: oracle_content_def)

lemma analyzeWithOpenAI_parse_failure:
  assumes "oracle_content (chat_completions w msgs) = Inr (c, p)"
    and "p = NotJSON m \<or> p = NoTopEmojis m"
  shows "analyzeWithOpenAI w st msgs =
     (Inl (Error (js ''Failed to parse OpenAI response as JSON: '' @ take 100 c @ js ''...'')), st)"
  using assms(2) unfolding analyzeWithOpenAI_def assms(1)
  by (auto simp add: parse_and_convert_def)

text \<open>
  The second copy: the error is the one \<open>JSON.parse\<close> throws, with the message of
  the runtime; the content has no part in it.
\<close>

lemma analyzeWithAI_parse_failure:
  assumes "oracle_content (chat_completions w msgs) = Inr (c, NotJSON m)"
  shows "analyzeWithAI w st msgs = (Inl (SyntaxError m), st)"
  unfolding analyzeWithAI_def assms(1) by (simp add: parse_and_convert_def)

lemma GET_parse_failure:
  assumes "fetchSlackFromMultipleChannels w = Inr msgs"
    and "api_error (chat_completions w msgs) = None"
    and "content (chat_completions w msgs) = Some (c, NotJSON m)" and "c \<noteq> []"
  shows "GET w st =
     (Response 500 (ErrorBody
        (js ''Failed to parse OpenAI response as JSON: '' @ take 100 c @ js ''...'')), st)"
proof -
  have "analyzeWithOpenAI w st msgs =
     (Inl (Error (js ''Failed to parse OpenAI response as JSON: '' @ take 100 c @ js ''...'')), st)"
    by (rule analyzeWithOpenAI_parse_failure
          [OF oracle_content_ok [OF assms(2-4)] disjI1 [OF refl]])
  then show ?thesis using assms(1) by (simp add: GET_def error_response_def)
qed

lemma GET_part000_parse_failure:
  assumes "fetchSlackFromMultipleChannels_part000 w = Inr msgs"
    and "api_error (chat_completions w msgs) = None"
    and "content (chat_completions w msgs) = Some (c, NotJSON m)" and "c \<noteq> []"
  shows "GET_part000 w st = (Response 500 (ErrorBody (error_text (SyntaxError m))), st)"
proof -
  have "analyzeWithAI w st msgs = (Inl (SyntaxError m), st)"
    by (rule analyzeWithAI_parse_failure [OF oracle_content_ok [OF assms(2-4)]])
  then show ?thesis using assms(1) by (simp add: GET_part000_def error_response_def)
qed

lemma fetch_channel_ignores_oracle:
  "fetchSlackMessagesFromChannel (w\<lparr>chat_completions := f\<rparr>) = fetchSlackMessagesFromChannel w"
  "fetchSlackMessagesFromChannel_part000 (w\<lparr>chat_completions := f\<rparr>)
     = fetchSlackMessagesFromChannel_part000 w"
  by (rule ext, simp add: fetchSlackMessagesFromChannel_def
        fetchSlackMessagesFromChannel_part000_def Let_def)+

lemma aggregate_ignores_oracle:
  "fetchSlackFromMultipleChannels (w\<lparr>chat_completions := f\<rparr>) = fetchSlackFromMultipleChannels w"
  "fetchSlackFromMultipleChannels_part000 (w\<lparr>chat_completions := f\<rparr>)
     = fetchSlackFromMultipleChannels_part000 w"
  by (simp_all add: fetchSlackFromMultipleChannels_def fetchSlackFromMultipleChannels_part000_def
      channelIds_def fetch_channel_ignores_oracle Let_def split: sum.splits)

lemma demo_invalid_auth_channelIds:
  "channelIds demo_world_invalid_auth = [js ''CA'', js ''CB'']"
  using demo_channelIds by (simp add: channelIds_def demo_world_invalid_auth_def)

lemma demo_invalid_auth_history:
  "ok (conversations_history demo_world_invalid_auth (js ''CA''))"
  "\<not> ok (conversations_history demo_world_invalid_auth (js ''CB''))"
  "error (conversations_history demo_world_invalid_auth (js ''CB'')) = Some (js ''invalid_auth'')"
  by (simp_all add: demo_world_invalid_auth_def demo_world_def)

lemma demo_truncated_answer:
  "api_error (chat_completions demo_world_truncated msgs) = None"
  "content (chat_completions demo_world_truncated msgs)
     = Some (truncated_content, NotJSON (js ''Unexpected end of JSON input''))"
  by (simp_all add: demo_world_truncated_def)

section \<open>Properties of the lookups\<close>

lemma playlists_of_labels:
  "playlistsForMood (js ''Chaos'') = Some (Val \<lparr>name = js ''Calm Lo-Fi Focus'',
      url = js ''https://open.spotify.com/playlist/37i9dQZF1DX3Ogo9pFvBkY''\<rparr>)"
  "playlistsForMood (js ''Stressed'') = Some (Val \<lparr>name = js ''Chill Hits'',
      url = js ''https://open.spotify.com/playlist/37i9dQZF1DX4WYpdgoIcn6''\<rparr>)"
  "playlistsForMood (js ''Neutral'') = Some (Val neutral_playlist)"
  "playlistsForMood (js ''Good'') = Some (Val \<lparr>name = js ''Feel Good Pop'',
      url = js ''https://open.spotify.com/playlist/37i9dQZF1DXdPec7aLTmlC''\<rparr>)"
  "playlistsForMood (js ''Vibes'') = Some (Val \<lparr>name = js ''Office Party Bangers'',
      url = js ''https://open.spotify.com/playlist/37i9dQZF1DXaXB8fQg7xif''\<rparr>)"
  by (simp_all add: playlistsForMood_def playlists_lookup_def obj_get_def playlist_map_def
      neutral_playlist_def)

lemma playlists_of_labels_part000:
  "playlistsForMood_part000 (js ''Chaos'') = Some (Val \<lparr>name = js ''Calm Lo-Fi Focus'',
      url = js ''https://open.spotify.com/playlist/37i9dQZF1DX3Ogo9pFvBkY''\<rparr>)"
  "playlistsForMood_part000 (js ''Stressed'') = Some (Val \<lparr>name = js ''Peaceful Piano'',
      url = js ''https://open.spotify.com/playlist/37i9dQZF1DX4sWSpwBtn3A''\<rparr>)"
  "playlistsForMood_part000 (js ''Neutral'') = Some (Val neutral_playlist)"
  "playlistsForMood_part000 (js ''Good'') = Some (Val \<lparr>name = js ''Feel Good Pop'',
      url = js ''https://open.spotify.com/playlist/37i9dQZF1DXdPec7aLTmlC''\<rparr>)"
  "playlistsForMood_part000 (js ''Vibes'') = Some (Val \<lparr>name = js ''Office Party Bangers'',
      url = js ''https://open.spotify.com/playlist/37i9dQZF1DXaXB8fQg7xif''\<rparr>)"
  by (simp_all add: playlistsForMood_part000_def playlists_lookup_def obj_get_def
      playlist_map_part000_def neutral_playlist_def)

text \<open>
  For each of the five labels both copies return an entry with a non-empty name and a
  well-formed link.
\<close>

lemma playlists_of_labels_well_formed:
  assumes "l \<in> set mood_labels"
  shows "\<exists>p. playlistsForMood l = Some (Val p) \<and> name p \<noteq> [] \<and> well_formed_url (url p)"
    and "\<exists>p. playlistsForMood_part000 l = Some (Val p) \<and> name p \<noteq> [] \<and> well_formed_url (url p)"
proof -
  have l: "l = js ''Chaos'' \<or> l = js ''Stressed'' \<or> l = js ''Neutral'' \<or> l = js ''Good''
           \<or> l = js ''Vibes''"
    using assms by (simp add: mood_labels_def)
  have w: "well_formed_url (js ''https://open.spotify.com/playlist/37i9dQZF1DX3Ogo9pFvBkY'')"
    "well_formed_url (js ''https://open.spotify.com/playlist/37i9dQZF1DX4WYpdgoIcn6'')"
    "well_formed_url (js ''https://open.spotify.com/playlist/37i9dQZF1DX4sWSpwBtn3A'')"
    "well_formed_url (js ''https://open.spotify.com/playlist/37i9dQZF1DX2Nc3B70tvx0'')"
    "well_formed_url (js ''https://open.spotify.com/playlist/37i9dQZF1DXdPec7aLTmlC'')"
    "well_formed_url (js ''https://open.spotify.com/playlist/37i9dQZF1DXaXB8fQg7xif'')"
    by (simp_all add: well_formed_url_def startsWith_def is_space_def)
  show "\<exists>p. playlistsForMood l = Some (Val p) \<and> name p \<noteq> [] \<and> well_formed_url (url p)"
    using l w by (elim disjE) (simp_all add: playlists_of_labels [simplified] neutral_playlist_def)
  show "\<exists>p. playlistsForMood_part000 l = Some (Val p) \<and> name p \<noteq> [] \<and> well_formed_url (url p)"
    using l w by (elim disjE) (simp_all add: playlists_of_labels_part000 [simplified] neutral_playlist_def)
qed

text \<open>
  A string that is neither a label nor the name of a member of \<open>Object.prototype\<close>
  gets the Neutral entry.
\<close>

lemma playlists_default:
  assumes "l \<notin> set mood_labels" and "l \<notin> set object_prototype_names"
  shows "playlistsForMood l = Some (Val neutral_playlist)"
    and "playlistsForMood_part000 l = Some (Val neutral_playlist)"
proof -
  have n: "map_of playlist_map l = None" "map_of playlist_map_part000 l = None"
    using assms(1) by (auto simp add: mood_labels_def playlist_map_def playlist_map_part000_def)
  have m: "map_of playlist_map (js ''Neutral'') = Some neutral_playlist"
    "map_of playlist_map_part000 (js ''Neutral'') = Some neutral_playlist"
    by (simp_all add: playlist_map_def playlist_map_part000_def neutral_playlist_def)
  show "playlistsForMood l = Some (Val neutral_playlist)"
    using assms(2) n(1) m(1)
    by (simp add: playlistsForMood_def playlists_lookup_def obj_get_def)
  show "playlistsForMood_part000 l = Some (Val neutral_playlist)"
    using assms(2) n(2) m(2)
    by (simp add: playlistsForMood_part000_def playlists_lookup_def obj_get_def)
qed

section \<open>Properties of the emoji directory\<close>

lemma colons_inject [simp]: "colons a = colons b \<longleftrightarrow> a = b"
  by (simp add: colons_def)


lemma getUnicodeForEmojiName_absent:
  "table (colons nm) = None \<Longrightarrow> getUnicodeForEmojiName table nm = colons nm"
  by (simp add: getUnicodeForEmojiName_def)

lemma emoji_step_other:
  "v = NotAString \<or> colons nm \<noteq> k \<Longrightarrow> emoji_step table m (nm, v) k = m k"
  by (cases v) (auto simp add: Let_def)

lemma foldl_emoji_step_other:
  "(\<forall>e \<in> set es. snd e = NotAString \<or> colons (fst e) \<noteq> k) \<Longrightarrow>
   foldl (emoji_step table) m es k = m k"
proof (induction es arbitrary: m)
  case Nil then show ?case by simp
next
  case (Cons e es)
  obtain nm v where e: "e = (nm, v)" by (cases e)
  have "foldl (emoji_step table) (emoji_step table m e) es k = emoji_step table m e k"
    using Cons by simp
  also have "\<dots> = m k" using Cons.prems e emoji_step_other [of v nm k table m] by simp
  finally show ?case by simp
qed

lemma emoji_step_alias_unknown:
  assumes "m (colons target) = None" and "table (colons target) = None"
  shows "emoji_step table m (nm, Str (js ''alias:'' @ target)) (colons nm) = Some (colons target)"
proof -
  have s: "startsWith (js ''alias:'' @ target) (js ''alias:'')" by (simp add: startsWith_def)
  have d: "drop (length (js ''alias:'')) (js ''alias:'' @ target) = target" by simp
  show ?thesis
    unfolding emoji_step.simps Let_def d using s assms
    by (simp add: getUnicodeForEmojiName_absent)
qed

lemma build_emoji_map_alias_unknown:
  assumes absent: "table (colons target) = None"
    and earlier: "\<forall>v. (target, Str v) \<notin> set pre"
    and later: "nm \<notin> fst ` set post"
  shows "build_emoji_map table (pre @ (nm, Str (js ''alias:'' @ target)) # post) (colons nm)
           = Some (colons target)"
proof -
  let ?m1 = "foldl (emoji_step table) Map.empty pre"
  have "\<forall>e \<in> set pre. snd e = NotAString \<or> colons (fst e) \<noteq> colons target"
  proof
    fix e assume e: "e \<in> set pre"
    obtain n v where nv: "e = (n, v)" by (cases e)
    show "snd e = NotAString \<or> colons (fst e) \<noteq> colons target"
    proof (cases v)
      case NotAString then show ?thesis using nv by simp
    next
      case (Str x)
      then have "n \<noteq> target" using earlier e nv by auto
      then show ?thesis using nv by simp
    qed
  qed
  then have m1: "?m1 (colons target) = None"
    using foldl_emoji_step_other [of pre "colons target" table Map.empty] by simp
  have "\<forall>e \<in> set post. snd e = NotAString \<or> colons (fst e) \<noteq> colons nm"
    using later by (auto simp add: image_iff)
  then have "build_emoji_map table (pre @ (nm, Str (js ''alias:'' @ target)) # post) (colons nm)
      = emoji_step table ?m1 (nm, Str (js ''alias:'' @ target)) (colons nm)"
    unfolding build_emoji_map_def using foldl_emoji_step_other by simp
  then show ?thesis using emoji_step_alias_unknown [of ?m1 target table nm] m1 absent by simp
qed

text \<open>No value of the directory that the loop builds is the empty string.\<close>

lemma getUnicodeForEmojiName_nonempty: "getUnicodeForEmojiName table nm \<noteq> []"
  by (simp add: getUnicodeForEmojiName_def colons_def split: option.splits)

lemma emoji_step_nonempty:
  assumes "\<forall>k u. m k = Some u \<longrightarrow> u \<noteq> []"
  shows "\<forall>k u. emoji_step table m e k = Some u \<longrightarrow> u \<noteq> []"
proof -
  obtain nm v where e: "e = (nm, v)" by (cases e)
  show ?thesis
  proof (cases v)
    case NotAString then show ?thesis using assms e by simp
  next
    case (Str x)
    then show ?thesis using assms e
      by (auto simp add: Let_def getUnicodeForEmojiName_nonempty colons_def
          split: option.splits if_splits)
  qed
qed

lemma foldl_emoji_step_nonempty:
  "\<forall>k u. m k = Some u \<longrightarrow> u \<noteq> [] \<Longrightarrow>
   \<forall>k u. foldl (emoji_step table) m es k = Some u \<longrightarrow> u \<noteq> []"
proof (induction es arbitrary: m)
  case Nil then show ?case by simp
next
  case (Cons e es)
  show ?case using Cons.IH [OF emoji_step_nonempty [OF Cons.prems]] by simp
qed

lemma build_emoji_map_nonempty: "build_emoji_map table es k = Some u \<Longrightarrow> u \<noteq> []"
  using foldl_emoji_step_nonempty [of Map.empty table es] by (simp add: build_emoji_map_def)

text \<open>An alias whose target has an entry already gets the value of that entry.\<close>

lemma emoji_step_alias_known:
  assumes "m (colons target) = Some u" and "u \<noteq> []"
  shows "emoji_step table m (nm, Str (js ''alias:'' @ target)) (colons nm) = Some u"
proof -
  have s: "startsWith (js ''alias:'' @ target) (js ''alias:'')" by (simp add: startsWith_def)
  have d: "drop (length (js ''alias:'')) (js ''alias:'' @ target) = target" by simp
  show ?thesis
    unfolding emoji_step.simps Let_def d using s assms by simp
qed

lemma build_emoji_map_alias_known:
  assumes earlier: "build_emoji_map table pre (colons target) = Some u"
    and later: "nm \<notin> fst ` set post"
  shows "build_emoji_map table (pre @ (nm, Str (js ''alias:'' @ target)) # post) (colons nm)
           = Some u"
proof -
  let ?m1 = "foldl (emoji_step table) Map.empty pre"
  have m1: "?m1 (colons target) = Some u" using earlier by (simp add: build_emoji_map_def)
  have u: "u \<noteq> []" using earlier by (rule build_emoji_map_nonempty)
  have "\<forall>e \<in> set post. snd e = NotAString \<or> colons (fst e) \<noteq> colons nm"
    using later by (auto simp add: image_iff)
  then have "build_emoji_map table (pre @ (nm, Str (js ''alias:'' @ target)) # post) (colons nm)
      = emoji_step table ?m1 (nm, Str (js ''alias:'' @ target)) (colons nm)"
    unfolding build_emoji_map_def using foldl_emoji_step_other by simp
  then show ?thesis using emoji_step_alias_known [of ?m1 target u table nm] m1 u by simp
qed


section \<open>Emoji codes survive the normalization of the second copy\<close>

lemma occurs_in_iff: "occurs_in t s \<longleftrightarrow> (\<exists>a b. s = a @ t @ b)"
proof (induction s)
  case Nil then show ?case by auto
next
  case (Cons c cs)
  show ?case
  proof
    assume "occurs_in t (c # cs)"
    then consider "startsWith (c # cs) t" | "occurs_in t cs" by auto
    then show "\<exists>a b. c # cs = a @ t @ b"
    proof cases
      case 1
      then have "c # cs = [] @ t @ drop (length t) (c # cs)"
        by (metis append_Nil append_take_drop_id startsWith_def)
      then show ?thesis by blast
    next
      case 2
      then obtain a b where "cs = a @ t @ b" using Cons.IH by blast
      then have "c # cs = (c # a) @ t @ b" by simp
      then show ?thesis by blast
    qed
  next
    assume "\<exists>a b. c # cs = a @ t @ b"
    then obtain a b where ab: "c # cs = a @ t @ b" by blast
    show "occurs_in t (c # cs)"
    proof (cases a)
      case Nil
      then have "startsWith (c # cs) t" using ab by (simp add: startsWith_def)
      then show ?thesis by simp
    next
      case (Cons a0 as)
      then have "cs = as @ t @ b" using ab by simp
      then show ?thesis using Cons.IH by auto
    qed
  qed
qed

lemma replace_g_untouched_prefix:
  "(\<forall>c \<in> set xs. \<forall>cs. m (c # cs) = 0) \<Longrightarrow>
   replace_g m rep (xs @ ys) = xs @ replace_g m rep ys"
  by (induction xs) (simp_all add: replace_g.simps)

lemma replace_g_barrier:
  assumes same: "\<And>xs ys. m (xs @ t # ys) = m xs" and short: "\<And>xs. m xs \<le> length xs"
  shows "replace_g m rep (xs @ t # ys) = replace_g m rep xs @ t # replace_g m rep ys"
proof (induction xs rule: length_induct)
  case (1 xs)
  show ?case
  proof (cases xs)
    case Nil
    have "m (t # ys) = 0" using same [of "[]" ys] short [of "[]"] by simp
    then show ?thesis using Nil by (simp add: replace_g.simps)
  next
    case (Cons c cs)
    have e: "m (c # cs @ t # ys) = m (c # cs)" using same [of "c # cs" ys] by simp
    show ?thesis
    proof (cases "m (c # cs) = 0")
      case True
      then show ?thesis using Cons e 1 by (simp add: replace_g.simps)
    next
      case False
      have k: "m (c # cs) - 1 \<le> length cs" using short [of "c # cs"] by simp
      then have d: "drop (m (c # cs) - 1) (cs @ t # ys) = drop (m (c # cs) - 1) cs @ t # ys"
        by simp
      have "length (drop (m (c # cs) - 1) cs) < length xs" using Cons by simp
      then have "replace_g m rep (drop (m (c # cs) - 1) cs @ t # ys)
          = replace_g m rep (drop (m (c # cs) - 1) cs) @ t # replace_g m rep ys"
        using 1 by blast
      then show ?thesis using Cons e False d by (simp add: replace_g.simps)
    qed
  qed
qed

text \<open>
  A replacement keeps a piece \<open>t # inner @ [t]\<close> of the text in place when no match can
  contain \<open>t\<close> and none can start inside the inner.
\<close>

lemma replace_g_keeps:
  assumes same: "\<And>xs ys. m (xs @ t # ys) = m xs" and short: "\<And>xs. m xs \<le> length xs"
    and inner: "\<forall>c \<in> set inner. \<forall>cs. m (c # cs) = 0"
  shows "replace_g m rep (pre @ t # inner @ t # post)
           = replace_g m rep pre @ t # inner @ t # replace_g m rep post"
proof -
  have "replace_g m rep (pre @ t # inner @ t # post)
      = replace_g m rep pre @ t # replace_g m rep (inner @ t # post)"
    using replace_g_barrier [of m t, OF same short] by blast
  also have "replace_g m rep (inner @ t # post) = inner @ replace_g m rep (t # post)"
    using inner by (rule replace_g_untouched_prefix)
  also have "replace_g m rep (t # post) = t # replace_g m rep post"
    using replace_g_barrier [of m t rep "[]" post, OF same short] by simp
  finally show ?thesis by simp
qed

lemma startsWith_barrier:
  assumes "t \<notin> set p"
  shows "startsWith (xs @ t # ys) p \<longleftrightarrow> startsWith xs p"
proof (cases "length p \<le> length xs")
  case True then show ?thesis by (simp add: startsWith_def)
next
  case False
  then have l: "length xs < length p" by simp
  have 1: "\<not> startsWith xs p"
  proof
    assume "startsWith xs p"
    then have "length (take (length p) xs) = length p" by (simp add: startsWith_def)
    then show False using l by simp
  qed
  have 2: "\<not> startsWith (xs @ t # ys) p"
  proof
    assume "startsWith (xs @ t # ys) p"
    then have e: "take (length p) (xs @ t # ys) = p" by (simp add: startsWith_def)
    obtain zs where z: "take (length p) (xs @ t # ys) = xs @ t # zs"
      using l by (simp add: take_Cons')
    have "t \<in> set (xs @ t # zs)" by simp
    then have "t \<in> set p" using e z by metis
    then show False using assms by simp
  qed
  show ?thesis using 1 2 by simp
qed

lemma re_literal_barrier:
  "t \<notin> set p \<Longrightarrow> re_literal p (xs @ t # ys) = re_literal p xs"
  by (simp add: re_literal_def startsWith_barrier)

lemma re_literal_short: "re_literal p xs \<le> length xs"
proof (cases "startsWith xs p")
  case True
  then have "length (take (length p) xs) = length p" by (simp add: startsWith_def)
  then show ?thesis using True by (simp add: re_literal_def)
next
  case False then show ?thesis by (simp add: re_literal_def)
qed

lemma re_literal_other_head: "p \<noteq> [] \<Longrightarrow> c \<noteq> hd p \<Longrightarrow> re_literal p (c # cs) = 0"
  by (cases p) (auto simp add: re_literal_def startsWith_def)

lemma re_bracket_other_head: "p \<noteq> [] \<Longrightarrow> c \<noteq> hd p \<Longrightarrow> re_bracket p (c # cs) = 0"
  by (cases p) (auto simp add: re_bracket_def startsWith_def)

lemma re_spaces_barrier: "\<not> is_space t \<Longrightarrow> re_spaces (xs @ t # ys) = re_spaces xs"
  unfolding re_spaces_def by (induction xs) simp_all

lemma re_spaces_short: "re_spaces xs \<le> length xs"
  by (simp add: re_spaces_def length_takeWhile_le)

lemma re_spaces_other_head: "\<not> is_space c \<Longrightarrow> re_spaces (c # cs) = 0"
  by (simp add: re_spaces_def)

lemma emoji_name_char_facts:
  assumes "emoji_name_char c"
  shows "c \<noteq> cu CHR ''<''" "c \<noteq> cu CHR ''&''" "\<not> is_space c"
  using assms by (auto simp add: emoji_name_char_def is_space_def Let_def)

lemma trim_keeps:
  assumes "t \<noteq> []" and "\<not> is_space (hd t)" and "\<not> is_space (last t)"
  shows "\<exists>a' b'. trim (a @ t @ b) = a' @ t @ b'"
proof -
  obtain t0 ts where t: "t = t0 # ts" using assms(1) by (cases t) auto
  have h: "\<not> is_space t0" using assms(2) t by simp
  have "\<exists>a1. dropWhile is_space (a @ t @ b) = a1 @ t @ b"
  proof (cases "\<forall>x \<in> set a. is_space x")
    case True
    then have "dropWhile is_space (a @ t @ b) = dropWhile is_space (t @ b)"
      by (simp add: dropWhile_append)
    then have "dropWhile is_space (a @ t @ b) = [] @ t @ b" using t h by simp
    then show ?thesis by blast
  next
    case False
    then have "dropWhile is_space (a @ t @ b) = dropWhile is_space a @ t @ b"
      by (auto simp add: dropWhile_append)
    then show ?thesis by blast
  qed
  then obtain a1 where a1: "dropWhile is_space (a @ t @ b) = a1 @ t @ b" by blast
  have r: "rev (a1 @ t @ b) = rev b @ rev t @ rev a1" by simp
  have rt: "rev t \<noteq> []" "\<not> is_space (hd (rev t))"
    using assms by (simp_all add: hd_rev)
  have "\<exists>b1. dropWhile is_space (rev b @ rev t @ rev a1) = b1 @ rev t @ rev a1"
  proof (cases "\<forall>x \<in> set (rev b). is_space x")
    case True
    then have "dropWhile is_space (rev b @ rev t @ rev a1) = dropWhile is_space (rev t @ rev a1)"
      by (simp add: dropWhile_append)
    also have "\<dots> = rev t @ rev a1" using rt by (cases "rev t") auto
    finally have "dropWhile is_space (rev b @ rev t @ rev a1) = [] @ rev t @ rev a1" by simp
    then show ?thesis by blast
  next
    case False
    then have "dropWhile is_space (rev b @ rev t @ rev a1)
        = dropWhile is_space (rev b) @ rev t @ rev a1"
      by (auto simp add: dropWhile_append)
    then show ?thesis by blast
  qed
  then obtain b1 where b1: "dropWhile is_space (rev b @ rev t @ rev a1) = b1 @ rev t @ rev a1"
    by blast
  have "trim (a @ t @ b) = a1 @ t @ rev b1"
    unfolding trim_def a1 r b1 by simp
  then show ?thesis by blast
qed

text \<open>
  An emoji code that no \<open><\<close> precedes, so that it lies in no angle-bracket construct,
  is still in the cleaned text of the second copy.
\<close>

lemma part000_keeps_emoji_code:
  assumes nm: "nm \<noteq> []" "\<forall>c \<in> set nm. emoji_name_char c"
    and pre: "cu CHR ''<'' \<notin> set pre"
  shows "occurs_in (colons nm) (cleanSlackText_part000 (pre @ colons nm @ post))"
proof -
  define k :: jchar where "k = cu CHR '':''"
  have tok: "colons nm = k # nm @ [k]" by (simp add: colons_def k_def)
  have split_tok: "a @ colons nm @ b = a @ k # nm @ k # b" for a b by (simp add: tok)
  have k_facts: "k \<noteq> cu CHR ''<''" "\<not> is_space k"
    "k \<notin> set (js ''&amp;'')" "k \<notin> set (js ''&lt;'')" "k \<notin> set (js ''&gt;'')"
    by (simp_all add: k_def is_space_def)
  have br: "replace_g (re_bracket p) [] (pre @ colons nm @ ys)
              = pre @ colons nm @ replace_g (re_bracket p) [] ys"
    if p: "p \<noteq> []" "hd p = cu CHR ''<''" for p ys
  proof -
    have "\<forall>c \<in> set (pre @ colons nm). \<forall>cs. re_bracket p (c # cs) = 0"
    proof (intro ballI allI)
      fix c cs assume "c \<in> set (pre @ colons nm)"
      then have "c \<in> set pre \<or> c = k \<or> c \<in> set nm" by (auto simp add: tok)
      then have "c \<noteq> hd p"
        using pre nm(2) emoji_name_char_facts(1) k_facts(1) p(2) by auto
      then show "re_bracket p (c # cs) = 0" using p(1) by (rule re_bracket_other_head [rotated])
    qed
    then have "replace_g (re_bracket p) [] ((pre @ colons nm) @ ys)
        = (pre @ colons nm) @ replace_g (re_bracket p) [] ys"
      by (rule replace_g_untouched_prefix)
    then show ?thesis by simp
  qed
  have lit: "replace_g (re_literal p) rep (a @ colons nm @ b)
      = replace_g (re_literal p) rep a @ colons nm @ replace_g (re_literal p) rep b"
    if p: "p \<noteq> []" "hd p = cu CHR ''&''" "k \<notin> set p" for p rep a b
  proof -
    have inner: "\<forall>c \<in> set nm. \<forall>cs. re_literal p (c # cs) = 0"
    proof (intro ballI allI)
      fix c cs assume "c \<in> set nm"
      then have "c \<noteq> hd p" using nm(2) emoji_name_char_facts(2) p(2) by auto
      then show "re_literal p (c # cs) = 0" using p(1) by (rule re_literal_other_head [rotated])
    qed
    have "replace_g (re_literal p) rep (a @ k # nm @ k # b)
        = replace_g (re_literal p) rep a @ k # nm @ k # replace_g (re_literal p) rep b"
      using re_literal_barrier [OF p(3)] re_literal_short inner by (rule replace_g_keeps)
    then show ?thesis unfolding split_tok .
  qed
  have sp: "replace_g re_spaces rep (a @ colons nm @ b)
      = replace_g re_spaces rep a @ colons nm @ replace_g re_spaces rep b" for rep a b
  proof -
    have inner: "\<forall>c \<in> set nm. \<forall>cs. re_spaces (c # cs) = 0"
      using nm(2) emoji_name_char_facts(3) re_spaces_other_head by blast
    have "replace_g re_spaces rep (a @ k # nm @ k # b)
        = replace_g re_spaces rep a @ k # nm @ k # replace_g re_spaces rep b"
      using re_spaces_barrier [OF k_facts(2)] re_spaces_short inner by (rule replace_g_keeps)
    then show ?thesis unfolding split_tok .
  qed
  have p1: "js ''<@'' \<noteq> []" "hd (js ''<@'') = cu CHR ''<''"
    and p2: "js ''<http'' \<noteq> []" "hd (js ''<http'') = cu CHR ''<''"
    and p3: "js ''<'' \<noteq> []" "hd (js ''<'') = cu CHR ''<''"
    and p4: "js ''&amp;'' \<noteq> []" "hd (js ''&amp;'') = cu CHR ''&''"
    and p5: "js ''&lt;'' \<noteq> []" "hd (js ''&lt;'') = cu CHR ''&''"
    and p6: "js ''&gt;'' \<noteq> []" "hd (js ''&gt;'') = cu CHR ''&''"
    by simp_all
  obtain a b where sm: "strip_markup (pre @ colons nm @ post) = a @ colons nm @ b"
    unfolding strip_markup_def br [OF p1] br [OF p2] br [OF p3]
      lit [OF p4 k_facts(3)] lit [OF p5 k_facts(4)] lit [OF p6 k_facts(5)]
    by blast
  have tk: "colons nm \<noteq> []" "\<not> is_space (hd (colons nm))" "\<not> is_space (last (colons nm))"
    using k_facts(2) by (simp_all add: tok)
  obtain a' b' where
    "trim (replace_g re_spaces (js '' '') a @ colons nm @ replace_g re_spaces (js '' '') b)
       = a' @ colons nm @ b'"
    using trim_keeps [OF tk] by blast
  then have "cleanSlackText_part000 (pre @ colons nm @ post) = a' @ colons nm @ b'"
    unfolding cleanSlackText_part000_def sm sp by simp
  then show ?thesis unfolding occurs_in_iff by blast
qed

lemma emoji_code_colons:
  assumes "emoji_code t"
  shows "\<exists>nm. t = colons nm \<and> nm \<noteq> [] \<and> (\<forall>c \<in> set nm. emoji_name_char c)"
proof -
  obtain c cs where t: "t = c # cs" using assms by (cases t) (auto simp add: emoji_code_def)
  let ?nm = "takeWhile emoji_name_char cs"
  have r: "re_emoji_code (c # cs) = Suc (length cs)"
    using assms t by (simp add: emoji_code_def)
  have c: "c = cu CHR '':''"
    using r by (auto simp add: re_emoji_code_def split: if_splits)
  have n: "0 < length ?nm" "length ?nm < length cs" "cs ! length ?nm = cu CHR '':''"
    "length ?nm + 2 = Suc (length cs)"
    using r c by (auto simp add: re_emoji_code_def Let_def split: if_splits)
  have "cs = ?nm @ dropWhile emoji_name_char cs" by simp
  moreover have "length (dropWhile emoji_name_char cs) = 1"
    using n(4) length_append [of ?nm "dropWhile emoji_name_char cs"] by simp
  moreover have "dropWhile emoji_name_char cs ! 0 = cs ! length ?nm"
    using n(2) by (metis add.right_neutral calculation(1) nth_append_length_plus)
  ultimately have "cs = ?nm @ [cu CHR '':'']"
    using n(3) by (metis One_nat_def length_0_conv length_Suc_conv nth_Cons_0)
  then have "t = colons ?nm" using t c by (simp add: colons_def)
  moreover have "?nm \<noteq> []" using n(1) by auto
  moreover have "\<forall>c \<in> set ?nm. emoji_name_char c" by (auto dest: set_takeWhileD)
  ultimately show ?thesis by blast
qed

lemma part000_keeps_every_emoji_code:
  assumes "emoji_code t" and "cu CHR ''<'' \<notin> set pre"
  shows "occurs_in t (cleanSlackText_part000 (pre @ t @ post))"
  using emoji_code_colons [OF assms(1)] part000_keeps_emoji_code [OF _ _ assms(2)] by blast

subsection \<open>A replacement that finds a match shortens the text\<close>

lemma replace_g_length_le:
  assumes short: "\<And>s. m s \<le> length s" and rep: "\<And>s. m s \<noteq> 0 \<Longrightarrow> length rep \<le> m s"
  shows "length (replace_g m rep s) \<le> length s"
proof (induction s rule: length_induct)
  case (1 s)
  show ?case
  proof (cases s)
    case Nil then show ?thesis by simp
  next
    case (Cons c cs)
    show ?thesis
    proof (cases "m (c # cs) = 0")
      case True
      have "length (replace_g m rep cs) \<le> length cs" using 1 Cons by simp
      then show ?thesis using True Cons by (simp add: replace_g.simps)
    next
      case False
      let ?r = "drop (m (c # cs) - 1) cs"
      have "length ?r < length s" using Cons by simp
      then have "length (replace_g m rep ?r) \<le> length ?r" using 1 by blast
      moreover have "length rep \<le> m (c # cs)" using rep False by blast
      moreover have "m (c # cs) \<le> Suc (length cs)" using short [of "c # cs"] by simp
      ultimately show ?thesis using False Cons by (simp add: replace_g.simps)
    qed
  qed
qed

lemma replace_g_length_less:
  assumes short: "\<And>s. m s \<le> length s" and rep: "\<And>s. m s \<noteq> 0 \<Longrightarrow> length rep < m s"
    and found: "matches_in m s"
  shows "length (replace_g m rep s) < length s"
  using found
proof (induction s)
  case Nil then show ?case by simp
next
  case (Cons c cs)
  show ?case
  proof (cases "m (c # cs) = 0")
    case True
    then have "matches_in m cs" using Cons.prems by simp
    then show ?thesis using Cons.IH True by (simp add: replace_g.simps)
  next
    case False
    let ?r = "drop (m (c # cs) - 1) cs"
    have "length (replace_g m rep ?r) \<le> length ?r"
      using short rep by (intro replace_g_length_le) (auto simp add: less_imp_le)
    moreover have "length rep < m (c # cs)" using rep False by blast
    moreover have "m (c # cs) \<le> Suc (length cs)" using short [of "c # cs"] by simp
    ultimately show ?thesis using False by (simp add: replace_g.simps)
  qed
qed

lemma re_bracket_short: "re_bracket p s \<le> length s"
proof (cases "startsWith s p")
  case False then show ?thesis by (simp add: re_bracket_def)
next
  case True
  then have "length (take (length p) s) = length p" by (simp add: startsWith_def)
  then have "length p \<le> length s" by simp
  then show ?thesis by (auto simp add: re_bracket_def Let_def)
qed

lemma re_emoji_code_short: "re_emoji_code s \<le> length s"
  by (cases s) (simp_all add: re_emoji_code_def Let_def)

lemma re_literal_match: "re_literal p s \<noteq> 0 \<Longrightarrow> re_literal p s = length p"
  by (simp add: re_literal_def split: if_splits)

lemma length_trim_le: "length (trim s) \<le> length s"
proof -
  have "length (trim s) \<le> length (dropWhile is_space s)"
    unfolding trim_def using length_dropWhile_le [of is_space "rev (dropWhile is_space s)"]
    by simp
  also have "\<dots> \<le> length s" by (rule length_dropWhile_le)
  finally show ?thesis .
qed

lemma bracket_step:
  "length (replace_g (re_bracket p) [] s) \<le> length s"
  "length (replace_g (re_bracket p) [] s) = length s \<Longrightarrow> \<not> matches_in (re_bracket p) s"
proof -
  show "length (replace_g (re_bracket p) [] s) \<le> length s"
    by (rule replace_g_length_le) (simp_all add: re_bracket_short)
  show "\<not> matches_in (re_bracket p) s" if "length (replace_g (re_bracket p) [] s) = length s"
  proof
    assume "matches_in (re_bracket p) s"
    then have "length (replace_g (re_bracket p) [] s) < length s"
      by (intro replace_g_length_less) (simp_all add: re_bracket_short)
    then show False using that by simp
  qed
qed

lemma literal_step:
  assumes "length rep < length p"
  shows "length (replace_g (re_literal p) rep s) \<le> length s"
    and "length (replace_g (re_literal p) rep s) = length s \<Longrightarrow> \<not> matches_in (re_literal p) s"
proof -
  have lt: "length rep < re_literal p s" if "re_literal p s \<noteq> 0" for s
    using re_literal_match [OF that] assms by simp
  show "length (replace_g (re_literal p) rep s) \<le> length s"
  proof (rule replace_g_length_le)
    show "re_literal p s \<le> length s" for s by (rule re_literal_short)
    show "length rep \<le> re_literal p s" if "re_literal p s \<noteq> 0" for s
      using lt [OF that] by simp
  qed
  show "\<not> matches_in (re_literal p) s" if "length (replace_g (re_literal p) rep s) = length s"
  proof
    assume "matches_in (re_literal p) s"
    then have "length (replace_g (re_literal p) rep s) < length s"
      using re_literal_short lt by (rule replace_g_length_less [rotated 2])
    then show False using that by simp
  qed
qed

lemma emoji_step_length:
  "length (replace_g re_emoji_code [] s) \<le> length s"
  "length (replace_g re_emoji_code [] s) = length s \<Longrightarrow> \<not> matches_in re_emoji_code s"
proof -
  show "length (replace_g re_emoji_code [] s) \<le> length s"
    by (rule replace_g_length_le) (simp_all add: re_emoji_code_short)
  show "\<not> matches_in re_emoji_code s" if "length (replace_g re_emoji_code [] s) = length s"
  proof
    assume "matches_in re_emoji_code s"
    then have "length (replace_g re_emoji_code [] s) < length s"
      by (intro replace_g_length_less) (simp_all add: re_emoji_code_short)
    then show False using that by simp
  qed
qed

lemma spaces_step: "length (replace_g re_spaces [32] s) \<le> length s"
proof (rule replace_g_length_le)
  show "re_spaces s \<le> length s" for s by (rule re_spaces_short)
  show "length [32 :: jchar] \<le> re_spaces s" if "re_spaces s \<noteq> 0" for s
    using that by (cases "re_spaces s") simp_all
qed

text \<open>
  A text that \<open>strip_markup\<close> returns with its length unchanged is free of markup.
\<close>

lemma strip_markup_same_length:
  "length (strip_markup s) \<le> length s"
  "length (strip_markup s) = length s \<Longrightarrow> markup_free s"
proof -
  let ?s1 = "replace_g (re_bracket (js ''<@'')) [] s"
  let ?s2 = "replace_g (re_bracket (js ''<http'')) [] ?s1"
  let ?s3 = "replace_g (re_bracket (js ''<'')) [] ?s2"
  let ?s4 = "replace_g (re_literal (js ''&amp;'')) (js ''&'') ?s3"
  let ?s5 = "replace_g (re_literal (js ''&lt;'')) (js ''<'') ?s4"
  let ?s6 = "replace_g (re_literal (js ''&gt;'')) (js ''>'') ?s5"
  have sm: "strip_markup s = ?s6" by (simp add: strip_markup_def)
  have l1: "length ?s1 \<le> length s" by (rule bracket_step(1))
  have l2: "length ?s2 \<le> length ?s1" by (rule bracket_step(1))
  have l3: "length ?s3 \<le> length ?s2" by (rule bracket_step(1))
  have l4: "length ?s4 \<le> length ?s3" by (rule literal_step(1)) simp
  have l5: "length ?s5 \<le> length ?s4" by (rule literal_step(1)) simp
  have l6: "length ?s6 \<le> length ?s5" by (rule literal_step(1)) simp
  show "length (strip_markup s) \<le> length s"
    unfolding sm using l1 l2 l3 l4 l5 l6 by linarith
  assume "length (strip_markup s) = length s"
  then have e: "length ?s6 = length s" unfolding sm .
  have e1: "length ?s1 = length s" using e l1 l2 l3 l4 l5 l6 by linarith
  then have n1: "\<not> matches_in (re_bracket (js ''<@'')) s" by (rule bracket_step(2))
  then have s1: "?s1 = s" by (rule replace_g_no_match)
  have e2: "length ?s2 = length ?s1" using e l1 l2 l3 l4 l5 l6 by linarith
  then have n2: "\<not> matches_in (re_bracket (js ''<http'')) ?s1" by (rule bracket_step(2))
  then have s2: "?s2 = s" using s1 replace_g_no_match by metis
  have e3: "length ?s3 = length ?s2" using e l1 l2 l3 l4 l5 l6 by linarith
  then have "\<not> matches_in (re_bracket (js ''<'')) ?s2" by (rule bracket_step(2))
  then have n3: "\<not> matches_in (re_bracket (js ''<'')) s" using s2 by metis
  then have s3: "?s3 = s" using s2 replace_g_no_match by metis
  have e4: "length ?s4 = length ?s3" using e l1 l2 l3 l4 l5 l6 by linarith
  then have "\<not> matches_in (re_literal (js ''&amp;'')) ?s3" by (rule literal_step(2) [rotated]) simp
  then have n4: "\<not> matches_in (re_literal (js ''&amp;'')) s" using s3 by metis
  then have s4: "?s4 = s" using s3 replace_g_no_match by metis
  have e5: "length ?s5 = length ?s4" using e l1 l2 l3 l4 l5 l6 by linarith
  then have "\<not> matches_in (re_literal (js ''&lt;'')) ?s4" by (rule literal_step(2) [rotated]) simp
  then have n5: "\<not> matches_in (re_literal (js ''&lt;'')) s" using s4 by metis
  then have s5: "?s5 = s" using s4 replace_g_no_match by metis
  have e6: "length ?s6 = length ?s5" using e l1 l2 l3 l4 l5 l6 by linarith
  then have "\<not> matches_in (re_literal (js ''&gt;'')) ?s5" by (rule literal_step(2) [rotated]) simp
  then have n6: "\<not> matches_in (re_literal (js ''&gt;'')) s" using s5 by metis
  show "markup_free s" unfolding markup_free_def using n3 n4 n5 n6 by blast
qed

lemma clean_part000_fixed_point:
  assumes "cleanSlackText_part000 s = s"
  shows "markup_free s"
proof -
  have "length (cleanSlackText_part000 s) \<le> length (replace_g re_spaces [32] (strip_markup s))"
    unfolding cleanSlackText_part000_def using length_trim_le by simp
  also have "\<dots> \<le> length (strip_markup s)" by (rule spaces_step)
  finally have "length s \<le> length (strip_markup s)" using assms by simp
  then have "length (strip_markup s) = length s" using strip_markup_same_length(1) [of s] by simp
  then show ?thesis by (rule strip_markup_same_length(2))
qed

lemma clean_fixed_point:
  assumes "cleanSlackText s = s"
  shows "markup_free s" and "\<not> matches_in re_emoji_code s"
proof -
  have "length (cleanSlackText s)
      \<le> length (replace_g re_spaces [32] (replace_g re_emoji_code [] (strip_markup s)))"
    unfolding cleanSlackText_def using length_trim_le by simp
  also have "\<dots> \<le> length (replace_g re_emoji_code [] (strip_markup s))" by (rule spaces_step)
  finally have a: "length s \<le> length (replace_g re_emoji_code [] (strip_markup s))"
    using assms by simp
  have b: "length (replace_g re_emoji_code [] (strip_markup s)) \<le> length (strip_markup s)"
    by (rule emoji_step_length(1))
  have c: "length (strip_markup s) \<le> length s" by (rule strip_markup_same_length(1))
  have "length (strip_markup s) = length s" using a b c by linarith
  then show m: "markup_free s" by (rule strip_markup_same_length(2))
  have "length (replace_g re_emoji_code [] (strip_markup s)) = length (strip_markup s)"
    using a b c by linarith
  then have "\<not> matches_in re_emoji_code (strip_markup s)" by (rule emoji_step_length(2))
  then show "\<not> matches_in re_emoji_code s" using strip_markup_id [OF m] by simp
qed

section \<open>The translation of a code\<close>



section \<open>Claims\<close>

text \<open>
  C1 (\<open>route.ts\<close>): emoji codes are not retained. The message
  \<open>nice :fire: work\<close> contains the emoji code \<open>:fire:\<close>, outside any markup, and
  its cleaned text \<open>nice work\<close> does not contain it: \<open>cleanSlackText\<close> of
  \<open>route.ts\<close> removes what \<open>/:[a-z0-9_+-]+:/g\<close> matches. The second copy keeps
  every emoji code that no \<open><\<close> precedes (lemma
  \<open>part000_keeps_every_emoji_code\<close>).
\<close>

theorem C1_route_strips_emoji_code:
  "emoji_code (js '':fire:'')
   \<and> occurs_in (js '':fire:'') (js ''nice :fire: work'')
   \<and> cleanSlackText (js ''nice :fire: work'') = js ''nice work''
   \<and> \<not> occurs_in (js '':fire:'') (cleanSlackText (js ''nice :fire: work''))"
  by (simp add: clean_eval)

text \<open>
  C2: when every history call succeeds, the aggregator returns a sequence that holds
  the text of each cleaned message three times when the timestamp of the message is
  greater than the threshold of the most recent tier, twice when it is not but is greater
  than the second threshold, and once otherwise. The comparison is strict, so a timestamp
  equal to a threshold falls to the lower tier. The thresholds are those the code computes
  from the clock: \<open>Date.now() / 1000\<close> less one day and less one week in
  \<open>route.ts\<close>, less one hour and less six hours in the second copy, in double
  arithmetic. Where no timestamp is NaN the sequence is in the order of the sorted list,
  newest first, the copies of a text next to each other.
\<close>

theorem C2_recency_weighting:
  "(let now = js_divide (to_double (real_of_int (now_weighting w))) 1000;
        weight = (\<lambda>m. if js_gt (timestamp m) (js_minus now 86400) then 3
                      else if js_gt (timestamp m) (js_minus now 604800) then 2 else 1)
    in promise_all (settled_at w) (map (fetchSlackMessagesFromChannel w) (channelIds w))
         = Inr allMessages
       \<longrightarrow>
       (\<exists>msgs. fetchSlackFromMultipleChannels w = Inr msgs
          \<and> mset msgs =
              (\<Sum>m\<in>#mset (concat allMessages). replicate_mset (weight m) (msg_text m))
          \<and> ((\<forall>m \<in> set (concat allMessages). timestamp m \<noteq> NaN) \<longrightarrow>
               sorted_wrt (\<lambda>a b. \<not> js_gt (timestamp b) (timestamp a))
                 (sort_desc (concat allMessages))
               \<and> mset (sort_desc (concat allMessages)) = mset (concat allMessages)
               \<and> msgs = concat (map (\<lambda>m. replicate (weight m) (msg_text m))
                                  (sort_desc (concat allMessages))))))
   \<and> (let now = js_divide (to_double (real_of_int (now_weighting w))) 1000;
          weight = (\<lambda>m. if js_gt (timestamp m) (js_minus now 3600) then 3
                        else if js_gt (timestamp m) (js_minus now 21600) then 2 else 1)
      in promise_all (settled_at w) (map (fetchSlackMessagesFromChannel_part000 w) (channelIds w))
           = Inr allMessages'
         \<longrightarrow>
         (\<exists>msgs. fetchSlackFromMultipleChannels_part000 w = Inr msgs
            \<and> mset msgs =
                (\<Sum>m\<in>#mset (concat allMessages'). replicate_mset (weight m) (msg_text m))
            \<and> ((\<forall>m \<in> set (concat allMessages'). timestamp m \<noteq> NaN) \<longrightarrow>
                 sorted_wrt (\<lambda>a b. \<not> js_gt (timestamp b) (timestamp a))
                   (sort_desc (concat allMessages'))
                 \<and> mset (sort_desc (concat allMessages')) = mset (concat allMessages')
                 \<and> msgs = concat (map (\<lambda>m. replicate (weight m) (msg_text m))
                                    (sort_desc (concat allMessages'))))))"
proof -
  let ?now = "js_divide (to_double (real_of_int (now_weighting w))) 1000"
  have s: "(\<forall>m \<in> set ms. timestamp m \<noteq> NaN) \<longrightarrow>
      sorted_wrt (\<lambda>a b. \<not> js_gt (timestamp b) (timestamp a)) (sort_desc ms)
      \<and> mset (sort_desc ms) = mset ms" for ms
    using sorted_sort_desc [of ms] mset_sort_desc [of ms] by blast
  have 1: "fetchSlackFromMultipleChannels w =
      Inr (weight_loop (js_minus ?now 86400) (js_minus ?now 604800) []
             (sort_desc (concat allMessages)))"
    if "promise_all (settled_at w) (map (fetchSlackMessagesFromChannel w) (channelIds w))
         = Inr allMessages"
    using that by (rule aggregation_result)
  have 2: "fetchSlackFromMultipleChannels_part000 w =
      Inr (weight_loop (js_minus ?now 3600) (js_minus ?now 21600) []
             (sort_desc (concat allMessages')))"
    if "promise_all (settled_at w) (map (fetchSlackMessagesFromChannel_part000 w) (channelIds w))
         = Inr allMessages'"
    using that by (rule aggregation_part000_result)
  show ?thesis
    unfolding Let_def
  proof (intro conjI impI)
    assume a: "promise_all (settled_at w) (map (fetchSlackMessagesFromChannel w) (channelIds w))
         = Inr allMessages"
    show "\<exists>msgs. fetchSlackFromMultipleChannels w = Inr msgs
          \<and> mset msgs =
              (\<Sum>m\<in>#mset (concat allMessages).
                 replicate_mset
                   (if js_gt (timestamp m) (js_minus ?now 86400) then 3
                    else if js_gt (timestamp m) (js_minus ?now 604800) then 2 else 1)
                   (msg_text m))
          \<and> ((\<forall>m \<in> set (concat allMessages). timestamp m \<noteq> NaN) \<longrightarrow>
               sorted_wrt (\<lambda>a b. \<not> js_gt (timestamp b) (timestamp a))
                 (sort_desc (concat allMessages))
               \<and> mset (sort_desc (concat allMessages)) = mset (concat allMessages)
               \<and> msgs = concat (map
                    (\<lambda>m. replicate
                       (if js_gt (timestamp m) (js_minus ?now 86400) then 3
                        else if js_gt (timestamp m) (js_minus ?now 604800) then 2 else 1)
                       (msg_text m))
                    (sort_desc (concat allMessages))))"
      unfolding 1 [OF a]
      using s [of "concat allMessages"]
        mset_weight_loop [of "js_minus ?now 86400" "js_minus ?now 604800" "concat allMessages"]
      by (simp add: weight_loop_acc tier_weight_def)
  next
    assume a: "promise_all (settled_at w)
        (map (fetchSlackMessagesFromChannel_part000 w) (channelIds w)) = Inr allMessages'"
    show "\<exists>msgs. fetchSlackFromMultipleChannels_part000 w = Inr msgs
          \<and> mset msgs =
              (\<Sum>m\<in>#mset (concat allMessages').
                 replicate_mset
                   (if js_gt (timestamp m) (js_minus ?now 3600) then 3
                    else if js_gt (timestamp m) (js_minus ?now 21600) then 2 else 1)
                   (msg_text m))
          \<and> ((\<forall>m \<in> set (concat allMessages'). timestamp m \<noteq> NaN) \<longrightarrow>
               sorted_wrt (\<lambda>a b. \<not> js_gt (timestamp b) (timestamp a))
                 (sort_desc (concat allMessages'))
               \<and> mset (sort_desc (concat allMessages')) = mset (concat allMessages')
               \<and> msgs = concat (map
                    (\<lambda>m. replicate
                       (if js_gt (timestamp m) (js_minus ?now 3600) then 3
                        else if js_gt (timestamp m) (js_minus ?now 21600) then 2 else 1)
                       (msg_text m))
                    (sort_desc (concat allMessages'))))"
      unfolding 2 [OF a]
      using s [of "concat allMessages'"]
        mset_weight_loop [of "js_minus ?now 3600" "js_minus ?now 21600" "concat allMessages'"]
      by (simp add: weight_loop_acc tier_weight_def)
  qed
qed

theorem C2_recency_weighting_witness:
  "promise_all (settled_at demo_world_tiers)
     (map (fetchSlackMessagesFromChannel demo_world_tiers) (channelIds demo_world_tiers))
     = Inr [[\<lparr>msg_text = js ''a day ago'', timestamp = Fin 913600\<rparr>,
             \<lparr>msg_text = js ''just now'', timestamp = Fin 1000000\<rparr>],
            [\<lparr>msg_text = js ''an hour ago'', timestamp = Fin 996400\<rparr>,
             \<lparr>msg_text = js ''a week ago'', timestamp = Fin 395200\<rparr>,
             \<lparr>msg_text = js ''six hours ago'', timestamp = Fin 978400\<rparr>]]
   \<and> now_weighting demo_world_tiers = 1000000000
   \<and> fetchSlackFromMultipleChannels demo_world_tiers
     = Inr [js ''just now'', js ''just now'', js ''just now'',
            js ''an hour ago'', js ''an hour ago'', js ''an hour ago'',
            js ''six hours ago'', js ''six hours ago'', js ''six hours ago'',
            js ''a day ago'', js ''a day ago'',
            js ''a week ago'']
   \<and> fetchSlackFromMultipleChannels_part000 demo_world_tiers
     = Inr [js ''just now'', js ''just now'', js ''just now'',
            js ''an hour ago'', js ''an hour ago'',
            js ''six hours ago'',
            js ''a day ago'',
            js ''a week ago'']
   \<and> now_weighting demo_world_rounding = 1100000001
   \<and> parseFloat demo_world_rounding (js ''495200.001'') = to_double (495200001 / 1000)
   \<and> fetchSlackFromMultipleChannels demo_world_rounding
     = Inr [js ''a week ago'', js ''a week ago'']"
proof -
  let ?all = "[[\<lparr>msg_text = js ''a day ago'', timestamp = Fin 913600\<rparr>,
           \<lparr>msg_text = js ''just now'', timestamp = Fin 1000000\<rparr>],
          [\<lparr>msg_text = js ''an hour ago'', timestamp = Fin 996400\<rparr>,
           \<lparr>msg_text = js ''a week ago'', timestamp = Fin 395200\<rparr>,
           \<lparr>msg_text = js ''six hours ago'', timestamp = Fin 978400\<rparr>]]"
  have n: "\<forall>m \<in> set (concat ?all). timestamp m \<noteq> NaN" by simp
  have c: "concat ?all =
     [\<lparr>msg_text = js ''a day ago'', timestamp = Fin 913600\<rparr>,
      \<lparr>msg_text = js ''just now'', timestamp = Fin 1000000\<rparr>,
      \<lparr>msg_text = js ''an hour ago'', timestamp = Fin 996400\<rparr>,
      \<lparr>msg_text = js ''a week ago'', timestamp = Fin 395200\<rparr>,
      \<lparr>msg_text = js ''six hours ago'', timestamp = Fin 978400\<rparr>]" by simp
  have t: "js_divide (to_double (real_of_int (now_weighting demo_world_tiers))) 1000
      = Fin 1000000"
    unfolding demo_tiers_settled by (rule demo_clock(1))
  from C2_recency_weighting [of demo_world_tiers ?all ?all, unfolded Let_def]
    demo_tiers_all n
  have 1: "fetchSlackFromMultipleChannels demo_world_tiers =
          Inr (concat (map
            (\<lambda>m. replicate
               (if js_gt (timestamp m) (js_minus (Fin 1000000) 86400) then 3
                else if js_gt (timestamp m) (js_minus (Fin 1000000) 604800) then 2 else 1)
               (msg_text m))
            (sort_desc (concat ?all))))"
    and 2: "fetchSlackFromMultipleChannels_part000 demo_world_tiers =
          Inr (concat (map
            (\<lambda>m. replicate
               (if js_gt (timestamp m) (js_minus (Fin 1000000) 3600) then 3
                else if js_gt (timestamp m) (js_minus (Fin 1000000) 21600) then 2 else 1)
               (msg_text m))
            (sort_desc (concat ?all))))"
    unfolding t by blast+
  have r: "now_weighting demo_world_rounding = 1100000001"
    "parseFloat demo_world_rounding (js ''495200.001'') = to_double (495200001 / 1000)"
    by (simp_all add: demo_world_rounding_def demo_world_def demo_parseFloat_def)
  show ?thesis
    unfolding 1 2 c demo_tiers_sorted demo_clock demo_tiers_all(1) demo_tiers_settled(2)
      demo_rounding_aggregate r
    by (simp add: numeral_3_eq_3 numeral_2_eq_2)
qed

text \<open>
  C3: when the endpoint answers 200, \<open>sample_size\<close> is the length of the weighted
  sequence that the aggregator returned and the classifier received. That length is the
  sum of the weights of the cleaned messages, not their number. Both copies.
\<close>

theorem C3_sample_size_is_weighted_length:
  "(fst (GET w st) = Response 200 (MoodBody r) \<longrightarrow>
      (\<exists>allMessages msgs.
         promise_all (settled_at w) (map (fetchSlackMessagesFromChannel w) (channelIds w))
           = Inr allMessages
         \<and> fetchSlackFromMultipleChannels w = Inr msgs
         \<and> fst (analyzeWithOpenAI w st msgs) = Inr (mood r)
         \<and> sample_size r = length msgs
         \<and> length msgs =
             (\<Sum>m\<leftarrow>concat allMessages.
                tier_weight
                  (js_minus (js_divide (to_double (real_of_int (now_weighting w))) 1000) 86400)
                  (js_minus (js_divide (to_double (real_of_int (now_weighting w))) 1000) 604800)
                  (timestamp m))))
   \<and> (fst (GET_part000 w st) = Response 200 (MoodBody r') \<longrightarrow>
      (\<exists>allMessages msgs.
         promise_all (settled_at w) (map (fetchSlackMessagesFromChannel_part000 w) (channelIds w))
           = Inr allMessages
         \<and> fetchSlackFromMultipleChannels_part000 w = Inr msgs
         \<and> fst (analyzeWithAI w st msgs) = Inr (mood r')
         \<and> sample_size r' = length msgs
         \<and> length msgs =
             (\<Sum>m\<leftarrow>concat allMessages.
                tier_weight
                  (js_minus (js_divide (to_double (real_of_int (now_weighting w))) 1000) 3600)
                  (js_minus (js_divide (to_double (real_of_int (now_weighting w))) 1000) 21600)
                  (timestamp m))))"
proof (intro conjI impI)
  let ?now = "js_divide (to_double (real_of_int (now_weighting w))) 1000"
  assume "fst (GET w st) = Response 200 (MoodBody r)"
  then have "GET w st = (Response 200 (MoodBody r), snd (GET w st))"
    by (metis prod.collapse)
  then obtain msgs where m: "fetchSlackFromMultipleChannels w = Inr msgs"
      "analyzeWithOpenAI w st msgs = (Inr (mood r), snd (GET w st))" "sample_size r = length msgs"
    using GET_200 by blast
  from aggregation_ok [OF m(1)] obtain allMessages where
    a: "promise_all (settled_at w) (map (fetchSlackMessagesFromChannel w) (channelIds w))
          = Inr allMessages"
       "msgs = weight_loop (js_minus ?now 86400) (js_minus ?now 604800) []
              (sort_desc (concat allMessages))"
    by blast
  have "length msgs =
      (\<Sum>m\<leftarrow>concat allMessages.
         tier_weight (js_minus ?now 86400) (js_minus ?now 604800) (timestamp m))"
    unfolding a(2) length_weight_loop by (rule sum_list_sort_desc)
  then show "\<exists>allMessages msgs.
         promise_all (settled_at w) (map (fetchSlackMessagesFromChannel w) (channelIds w))
           = Inr allMessages
         \<and> fetchSlackFromMultipleChannels w = Inr msgs
         \<and> fst (analyzeWithOpenAI w st msgs) = Inr (mood r)
         \<and> sample_size r = length msgs
         \<and> length msgs =
             (\<Sum>m\<leftarrow>concat allMessages.
                tier_weight (js_minus ?now 86400) (js_minus ?now 604800) (timestamp m))"
    using a(1) m by (intro exI [of _ allMessages] exI [of _ msgs]) simp
next
  let ?now = "js_divide (to_double (real_of_int (now_weighting w))) 1000"
  assume "fst (GET_part000 w st) = Response 200 (MoodBody r')"
  then have "GET_part000 w st = (Response 200 (MoodBody r'), snd (GET_part000 w st))"
    by (metis prod.collapse)
  then obtain msgs where m: "fetchSlackFromMultipleChannels_part000 w = Inr msgs"
      "analyzeWithAI w st msgs = (Inr (mood r'), snd (GET_part000 w st))"
      "sample_size r' = length msgs"
    using GET_part000_200 by blast
  from aggregation_part000_ok [OF m(1)] obtain allMessages where
    a: "promise_all (settled_at w) (map (fetchSlackMessagesFromChannel_part000 w) (channelIds w))
          = Inr allMessages"
       "msgs = weight_loop (js_minus ?now 3600) (js_minus ?now 21600) []
              (sort_desc (concat allMessages))"
    by blast
  have "length msgs =
      (\<Sum>m\<leftarrow>concat allMessages.
         tier_weight (js_minus ?now 3600) (js_minus ?now 21600) (timestamp m))"
    unfolding a(2) length_weight_loop by (rule sum_list_sort_desc)
  then show "\<exists>allMessages msgs.
         promise_all (settled_at w) (map (fetchSlackMessagesFromChannel_part000 w) (channelIds w))
           = Inr allMessages
         \<and> fetchSlackFromMultipleChannels_part000 w = Inr msgs
         \<and> fst (analyzeWithAI w st msgs) = Inr (mood r')
         \<and> sample_size r' = length msgs
         \<and> length msgs =
             (\<Sum>m\<leftarrow>concat allMessages.
                tier_weight (js_minus ?now 3600) (js_minus ?now 21600) (timestamp m))"
    using a(1) m by (intro exI [of _ allMessages] exI [of _ msgs]) simp
qed

theorem C3_sample_size_witness:
  "fst (GET demo_world no_cache) = Response 200 (MoodBody demo_response)
   \<and> fetchSlackFromMultipleChannels demo_world
       = Inr [js ''we shipped it'', js ''we shipped it'', js ''we shipped it'',
              js ''so tired today'', js ''so tired today'', js ''so tired today'']
   \<and> sample_size demo_response = 6
   \<and> fst (GET_part000 demo_world no_cache) = Response 200 (MoodBody demo_response_part000)
   \<and> fetchSlackFromMultipleChannels_part000 demo_world
       = Inr [js ''we shipped it'', js ''we shipped it'', js ''we shipped it'',
              js ''so tired today'', js ''so tired today'']
   \<and> sample_size demo_response_part000 = 5"
  using C3_sample_size_is_weighted_length
          [of demo_world no_cache demo_response demo_response_part000]
        demo_GET demo_GET_part000 demo_aggregate demo_aggregate_part000
  by auto

text \<open>
  C4: normalization is not idempotent. The entities are decoded after the angle-bracket
  constructs are removed, so a cleaned text can hold a construct again: the text
  \<open>&lt;bold&gt; text\<close> cleans to \<open><bold> text\<close>, which cleans to
  \<open>text\<close>. Both copies of \<open>cleanSlackText\<close> do this.
\<close>

theorem C4_not_idempotent:
  "cleanSlackText (js ''&lt;bold&gt; text'') = js ''<bold> text''
   \<and> cleanSlackText (js ''<bold> text'') = js ''text''
   \<and> cleanSlackText (cleanSlackText (js ''&lt;bold&gt; text''))
       \<noteq> cleanSlackText (js ''&lt;bold&gt; text'')
   \<and> cleanSlackText_part000 (js ''&lt;bold&gt; text'') = js ''<bold> text''
   \<and> cleanSlackText_part000 (js ''<bold> text'') = js ''text''
   \<and> cleanSlackText_part000 (cleanSlackText_part000 (js ''&lt;bold&gt; text''))
       \<noteq> cleanSlackText_part000 (js ''&lt;bold&gt; text'')"
proof -
  have 1: "cleanSlackText (js ''&lt;bold&gt; text'') = js ''<bold> text''"
    by (simp add: clean_eval)
  have 2: "cleanSlackText (js ''<bold> text'') = js ''text''"
    by (simp add: clean_eval)
  have 3: "cleanSlackText_part000 (js ''&lt;bold&gt; text'') = js ''<bold> text''"
    by (simp add: clean_eval)
  have 4: "cleanSlackText_part000 (js ''<bold> text'') = js ''text''"
    by (simp add: clean_eval)
  show ?thesis unfolding 1 2 3 4 by simp
qed

text \<open>
  C4, amended: normalizing a cleaned text again yields the same text exactly when the
  cleaned text holds nothing that a replacement step would still change: no angle-bracket
  construct, no entity escape and, for \<open>route.ts\<close>, no emoji code. The white space
  steps by themselves are idempotent.
\<close>

theorem C4_idempotent_iff_markup_free:
  "(cleanSlackText (cleanSlackText t) = cleanSlackText t
      \<longleftrightarrow> markup_free (cleanSlackText t) \<and> \<not> matches_in re_emoji_code (cleanSlackText t))
   \<and> (cleanSlackText_part000 (cleanSlackText_part000 t) = cleanSlackText_part000 t
      \<longleftrightarrow> markup_free (cleanSlackText_part000 t))"
  using clean_idem clean_part000_idem clean_fixed_point clean_part000_fixed_point by blast

theorem C4_idempotent_witness:
  "cleanSlackText (js '' so <@U1> glad &amp;  :tada: ok '') = js ''so glad & ok''
   \<and> markup_free (js ''so glad & ok'')
   \<and> \<not> matches_in re_emoji_code (js ''so glad & ok'')
   \<and> cleanSlackText (js ''so glad & ok'') = js ''so glad & ok''
   \<and> cleanSlackText_part000 (js '' so <@U1> glad &amp;  :tada: ok '') = js ''so glad & :tada: ok''
   \<and> markup_free (js ''so glad & :tada: ok'')
   \<and> cleanSlackText_part000 (js ''so glad & :tada: ok'') = js ''so glad & :tada: ok''"
proof -
  let ?t = "js '' so <@U1> glad &amp;  :tada: ok ''"
  have 1: "cleanSlackText ?t = js ''so glad & ok''"
    by (simp add: clean_eval)
  have 2: "markup_free (js ''so glad & ok'')"
    by (simp add: clean_eval)
  have 3: "\<not> matches_in re_emoji_code (js ''so glad & ok'')"
    by (simp add: clean_eval)
  have 4: "cleanSlackText_part000 ?t = js ''so glad & :tada: ok''"
    by (simp add: clean_eval)
  have 5: "markup_free (js ''so glad & :tada: ok'')"
    by (simp add: clean_eval)
  have 6: "cleanSlackText (js ''so glad & ok'') = js ''so glad & ok''"
    using C4_idempotent_iff_markup_free [of ?t] 2 3 unfolding 1 by blast
  have 7: "cleanSlackText_part000 (js ''so glad & :tada: ok'') = js ''so glad & :tada: ok''"
    using C4_idempotent_iff_markup_free [of ?t] 5 unfolding 4 by blast
  show ?thesis using 1 2 3 4 5 6 7 by blast
qed

text \<open>
  C5 (second copy): a content that does not parse produces no parse-failure error of the
  pipeline's own. \<open>analyzeWithAI\<close> has no \<open>try\<close> around \<open>JSON.parse\<close>, so
  the endpoint answers with the message of the runtime's \<open>SyntaxError\<close>, whatever
  that message is and whatever the content is: the code adds no excerpt of the content to
  it. \<open>route.ts\<close> on the same run answers with its own error, which quotes the first
  100 code units of the content.
\<close>

theorem C5_part000_answers_with_the_runtime_message:
  "(fetchSlackFromMultipleChannels_part000 w = Inr msgs
      \<and> api_error (chat_completions w msgs) = None
      \<and> content (chat_completions w msgs) = Some (c, NotJSON m) \<and> c \<noteq> [] \<and> m \<noteq> []
    \<longrightarrow> GET_part000 w st = (Response 500 (ErrorBody m), st))
   \<and> (fetchSlackFromMultipleChannels w = Inr msgs'
      \<and> api_error (chat_completions w msgs') = None
      \<and> content (chat_completions w msgs') = Some (c', NotJSON m') \<and> c' \<noteq> []
    \<longrightarrow> GET w st =
          (Response 500 (ErrorBody
             (js ''Failed to parse OpenAI response as JSON: '' @ take 100 c' @ js ''...'')), st))"
  using GET_part000_parse_failure [of w msgs c m st] GET_parse_failure [of w msgs' c' m' st]
  by simp

theorem C5_truncated_answer_witness:
  "content (chat_completions demo_world_truncated
       [js ''we shipped it'', js ''we shipped it'', js ''we shipped it'',
        js ''so tired today'', js ''so tired today''])
     = Some (js ''{'' @ dq (js ''mood_score'') @ js '':72,'' @ dq (js ''mood_label'') @ js '':'',
             NotJSON (js ''Unexpected end of JSON input''))
   \<and> GET_part000 demo_world_truncated no_cache
       = (Response 500 (ErrorBody (js ''Unexpected end of JSON input'')), no_cache)
   \<and> GET demo_world_truncated no_cache
       = (Response 500 (ErrorBody
            (js ''Failed to parse OpenAI response as JSON: {'' @ dq (js ''mood_score'')
             @ js '':72,'' @ dq (js ''mood_label'') @ js '':...'')), no_cache)"
proof -
  have a: "fetchSlackFromMultipleChannels_part000 demo_world_truncated
      = Inr [js ''we shipped it'', js ''we shipped it'', js ''we shipped it'',
             js ''so tired today'', js ''so tired today'']"
    unfolding demo_world_truncated_def aggregate_ignores_oracle by (rule demo_aggregate_part000)
  have b: "fetchSlackFromMultipleChannels demo_world_truncated
      = Inr [js ''we shipped it'', js ''we shipped it'', js ''we shipped it'',
             js ''so tired today'', js ''so tired today'', js ''so tired today'']"
    unfolding demo_world_truncated_def aggregate_ignores_oracle by (rule demo_aggregate)
  have m: "js ''Unexpected end of JSON input'' \<noteq> []" by simp
  have 1: "GET_part000 demo_world_truncated no_cache
       = (Response 500 (ErrorBody (js ''Unexpected end of JSON input'')), no_cache)"
    using C5_part000_answers_with_the_runtime_message
      [of demo_world_truncated _ truncated_content "js ''Unexpected end of JSON input''" no_cache]
      a demo_truncated_answer demo_content_nonempty(2) m
    by blast
  have 2: "GET demo_world_truncated no_cache
       = (Response 500 (ErrorBody
            (js ''Failed to parse OpenAI response as JSON: '' @ take 100 truncated_content
             @ js ''...'')), no_cache)"
    using C5_part000_answers_with_the_runtime_message
      [of demo_world_truncated _ _ _ no_cache _ truncated_content
          "js ''Unexpected end of JSON input''"]
      b demo_truncated_answer demo_content_nonempty(2)
    by blast
  show ?thesis
    unfolding 1 2 demo_truncated_answer by (simp add: truncated_content_def dq_def)
qed

text \<open>
  C6: when the history call of a configured channel answers \<open>ok: false\<close>, the
  aggregation returns no messages and throws the error of a channel that answered so
  (of that channel when it is the only one, of the one whose answer arrived first
  otherwise); the message names the channel and the reason, and the endpoint answers 500
  with that message as \<open>error\<close>.
\<close>

theorem C6_channel_failure_aborts:
  assumes "c \<in> set (channelIds w)" and "\<not> ok (conversations_history w c)"
  shows "\<exists>c' \<in> set (channelIds w).
           \<not> ok (conversations_history w c')
           \<and> fetchSlackFromMultipleChannels w =
               Inl (Error (js ''Slack error for channel '' @ c' @ js '': ''
                            @ interpolate (error (conversations_history w c'))))
           \<and> GET w st =
               (Response 500 (ErrorBody (js ''Slack error for channel '' @ c' @ js '': ''
                                          @ interpolate (error (conversations_history w c')))),
                st)"
proof -
  from aggregation_aborts [OF assms] obtain c' where
    c': "c' \<in> set (channelIds w)" "\<not> ok (conversations_history w c')"
        "fetchSlackFromMultipleChannels w
           = Inl (Error (slack_error c' (conversations_history w c')))"
    by blast
  have "GET w st = (Response 500 (ErrorBody (slack_error c' (conversations_history w c'))), st)"
    using GET_aggregation_failed [OF c'(3)] slack_error_nonempty
    by (simp add: error_response_def)
  then show ?thesis using c' unfolding slack_error_def by blast
qed

theorem C6_channel_failure_witness:
  "js ''CB'' \<in> set (channelIds demo_world_invalid_auth)
   \<and> \<not> ok (conversations_history demo_world_invalid_auth (js ''CB''))
   \<and> fetchSlackFromMultipleChannels demo_world_invalid_auth
       = Inl (Error (js ''Slack error for channel CB: invalid_auth''))
   \<and> GET demo_world_invalid_auth no_cache
       = (Response 500 (ErrorBody (js ''Slack error for channel CB: invalid_auth'')), no_cache)"
proof -
  have m: "js ''CB'' \<in> set (channelIds demo_world_invalid_auth)"
    unfolding demo_invalid_auth_channelIds by simp
  from C6_channel_failure_aborts [OF m demo_invalid_auth_history(2), of no_cache]
  obtain c' where c': "c' \<in> set (channelIds demo_world_invalid_auth)"
      "\<not> ok (conversations_history demo_world_invalid_auth c')"
      "fetchSlackFromMultipleChannels demo_world_invalid_auth =
         Inl (Error (js ''Slack error for channel '' @ c' @ js '': ''
                @ interpolate (error (conversations_history demo_world_invalid_auth c'))))"
      "GET demo_world_invalid_auth no_cache =
         (Response 500 (ErrorBody (js ''Slack error for channel '' @ c' @ js '': ''
                @ interpolate (error (conversations_history demo_world_invalid_auth c')))),
          no_cache)"
    by blast
  have "c' = js ''CA'' \<or> c' = js ''CB''"
    using c'(1) unfolding demo_invalid_auth_channelIds by simp
  then have e: "c' = js ''CB''" using c'(2) demo_invalid_auth_history(1) by blast
  show ?thesis
    using m demo_invalid_auth_history(2) c'(3,4) unfolding e
    by (simp add: demo_invalid_auth_history(3) [simplified])
qed

text \<open>
  C7: when the answer of the completion service carries an error object with a message,
  the endpoint answers 500 and its \<open>error\<close> is the message behind the prefix
  \<open>OpenAI API error: \<close>. Both copies. (An error object without a message, or with
  an empty one, is reported by its JSON text instead.)
\<close>

theorem C7_oracle_error_is_prefixed:
  "(fetchSlackFromMultipleChannels w = Inr msgs
      \<and> api_error (chat_completions w msgs) = Some e \<and> message e = Some m \<and> m \<noteq> []
    \<longrightarrow> GET w st = (Response 500 (ErrorBody (js ''OpenAI API error: '' @ m)), st))
   \<and> (fetchSlackFromMultipleChannels_part000 w = Inr msgs'
      \<and> api_error (chat_completions w msgs') = Some e' \<and> message e' = Some m' \<and> m' \<noteq> []
    \<longrightarrow> GET_part000 w st = (Response 500 (ErrorBody (js ''OpenAI API error: '' @ m')), st))"
  using GET_oracle_error GET_part000_oracle_error by blast

theorem C7_oracle_error_witness:
  "fetchSlackFromMultipleChannels demo_world_rate_limited
     = Inr [js ''we shipped it'', js ''we shipped it'', js ''we shipped it'',
            js ''so tired today'', js ''so tired today'', js ''so tired today'']
   \<and> api_error (chat_completions demo_world_rate_limited
         [js ''we shipped it'', js ''we shipped it'', js ''we shipped it'',
          js ''so tired today'', js ''so tired today'', js ''so tired today''])
       = Some \<lparr>message = Some (js ''rate limited''), stringified = js ''{message:rate limited}''\<rparr>
   \<and> GET demo_world_rate_limited no_cache
       = (Response 500 (ErrorBody (js ''OpenAI API error: rate limited'')), no_cache)
   \<and> GET_part000 demo_world_rate_limited no_cache
       = (Response 500 (ErrorBody (js ''OpenAI API error: rate limited'')), no_cache)"
proof -
  let ?e = "\<lparr>message = Some (js ''rate limited''), stringified = js ''{message:rate limited}''\<rparr>"
  have a: "fetchSlackFromMultipleChannels demo_world_rate_limited
      = Inr [js ''we shipped it'', js ''we shipped it'', js ''we shipped it'',
             js ''so tired today'', js ''so tired today'', js ''so tired today'']"
    unfolding demo_world_rate_limited_def aggregate_ignores_oracle by (rule demo_aggregate)
  have b: "fetchSlackFromMultipleChannels_part000 demo_world_rate_limited
      = Inr [js ''we shipped it'', js ''we shipped it'', js ''we shipped it'',
             js ''so tired today'', js ''so tired today'']"
    unfolding demo_world_rate_limited_def aggregate_ignores_oracle
    by (rule demo_aggregate_part000)
  have c: "api_error (chat_completions demo_world_rate_limited msgs) = Some ?e" for msgs
    by (simp add: demo_world_rate_limited_def)
  have d: "message ?e = Some (js ''rate limited'')" "js ''rate limited'' \<noteq> []"
    by simp_all
  have 1: "GET demo_world_rate_limited no_cache
       = (Response 500 (ErrorBody (js ''OpenAI API error: '' @ js ''rate limited'')), no_cache)"
    using C7_oracle_error_is_prefixed
      [of demo_world_rate_limited _ ?e "js ''rate limited''" no_cache] a c d by blast
  have 2: "GET_part000 demo_world_rate_limited no_cache
       = (Response 500 (ErrorBody (js ''OpenAI API error: '' @ js ''rate limited'')), no_cache)"
    using C7_oracle_error_is_prefixed
      [of demo_world_rate_limited _ _ _ no_cache _ ?e "js ''rate limited''"] b c d by blast
  show ?thesis using a c 1 2 by simp
qed



text \<open>
  C9: the default is missed for the strings that name a member every object inherits.
  \<open>map["constructor"]\<close> is the inherited function \<open>Object\<close>, which is truthy, so
  \<open>map[moodLabel] || map.Neutral\<close> returns it instead of the Neutral entry. The label
  comes unchecked from the answer of the completion service. Both copies.
\<close>

theorem C9_inherited_name_gets_no_playlist:
  "js ''constructor'' \<notin> set mood_labels
   \<and> playlistsForMood (js ''constructor'') = Some (Inherited (js ''constructor''))
   \<and> playlistsForMood (js ''constructor'') \<noteq> Some (Val neutral_playlist)
   \<and> playlistsForMood_part000 (js ''constructor'') = Some (Inherited (js ''constructor''))
   \<and> playlistsForMood_part000 (js ''constructor'') \<noteq> Some (Val neutral_playlist)"
  by (simp add: playlistsForMood_def playlistsForMood_part000_def playlists_lookup_def
      obj_get_def playlist_map_def playlist_map_part000_def object_prototype_names_def
      mood_labels_def)

text \<open>
  C10: in the loop of \<open>fetchSlackEmojis\<close> an alias is resolved against the entries
  seen so far, so the directory that is built and cached depends on the order of the
  enumeration. When the target of an alias has no entry in the fallback table and no
  earlier entry of the fetched directory, the alias is mapped to the literal code
  \<open>:target:\<close>, whatever follows it in the enumeration, also an entry that gives the
  target a glyph. When the entries before the alias have given the target a value, the
  alias is mapped to that value. (The names of a directory are distinct, so no later
  entry has the name of the alias.)
\<close>

theorem C10_alias_resolution_depends_on_order:
  "(table (colons target) = None \<and> (\<forall>v. (target, Str v) \<notin> set pre) \<and> nm \<notin> fst ` set post
    \<longrightarrow>
      fst (fetchSlackEmojis table
             (EmojiBody True (Some (pre @ (nm, Str (js ''alias:'' @ target)) # post)))
             now_check now_stored \<lparr>emojiCache = None, emojiCacheTime = t0\<rparr>) (colons nm)
        = Some (colons target))
   \<and> (build_emoji_map table pre' (colons target') = Some u \<and> nm' \<notin> fst ` set post'
    \<longrightarrow>
      fst (fetchSlackEmojis table
             (EmojiBody True (Some (pre' @ (nm', Str (js ''alias:'' @ target')) # post')))
             now_check now_stored \<lparr>emojiCache = None, emojiCacheTime = t0\<rparr>) (colons nm')
        = Some u)"
  using build_emoji_map_alias_unknown [of table target pre nm post]
    build_emoji_map_alias_known [of table pre' target' u nm' post']
  by (simp add: fetchSlackEmojis_def Let_def map_add_def)

theorem C10_alias_witness:
  "map_of getBasicEmojiMap (js '':prayer:'') = None
   \<and> fst (fetchSlackEmojis (map_of getBasicEmojiMap) (EmojiBody True (Some demo_directory))
           1000000500 1000000900 no_cache) (js '':thanks:'') = Some (js '':prayer:'')
   \<and> fst (fetchSlackEmojis (map_of getBasicEmojiMap) (EmojiBody True (Some demo_directory))
           1000000500 1000000900 no_cache) (js '':prayer:'') = Some [0xD83D, 0xDE4F]
   \<and> fst (fetchSlackEmojis (map_of getBasicEmojiMap)
           (EmojiBody True (Some demo_directory_reordered))
           1000000500 1000000900 no_cache) (js '':thanks:'') = Some [0xD83D, 0xDE4F]
   \<and> fst (fetchSlackEmojis (map_of getBasicEmojiMap)
           (EmojiBody True (Some demo_directory_reordered))
           1000000500 1000000900 no_cache) (js '':prayer:'') = Some [0xD83D, 0xDE4F]"
proof -
  let ?shipit = "(js ''shipit'', Str (js ''https://e.moji/shipit.png''))"
  let ?prayer = "(js ''prayer'', Str (js ''alias:pray''))"
  have a: "map_of getBasicEmojiMap (colons (js ''prayer'')) = None"
    by (simp add: getBasicEmojiMap_def colons_def)
  have d: "demo_directory = [?shipit] @ (js ''thanks'', Str (js ''alias:'' @ js ''prayer'')) # [?prayer]"
    by (simp add: demo_directory_def)
  have r: "demo_directory_reordered =
      [?shipit, ?prayer] @ (js ''thanks'', Str (js ''alias:'' @ js ''prayer'')) # []"
    by (simp add: demo_directory_reordered_def)
  have b: "build_emoji_map (map_of getBasicEmojiMap) [?shipit, ?prayer] (colons (js ''prayer''))
      = Some [0xD83D, 0xDE4F]"
    by (simp add: build_emoji_map_def startsWith_def colons_def getUnicodeForEmojiName_def
        getBasicEmojiMap_def Let_def)
  have 1: "fst (fetchSlackEmojis (map_of getBasicEmojiMap) (EmojiBody True (Some demo_directory))
           1000000500 1000000900 no_cache) (colons (js ''thanks'')) = Some (colons (js ''prayer''))"
    unfolding d no_cache_def
    using C10_alias_resolution_depends_on_order [of "map_of getBasicEmojiMap" "js ''prayer''"
        "[?shipit]" "js ''thanks''" "[?prayer]" 1000000500 1000000900 0] a
    by simp
  have 2: "fst (fetchSlackEmojis (map_of getBasicEmojiMap) (EmojiBody True (Some demo_directory))
           1000000500 1000000900 no_cache) (js '':prayer:'') = Some [0xD83D, 0xDE4F]"
    by (simp add: fetchSlackEmojis_def no_cache_def demo_directory_def build_emoji_map_def
        startsWith_def colons_def map_add_def getUnicodeForEmojiName_def getBasicEmojiMap_def
        Let_def)
  have 3: "fst (fetchSlackEmojis (map_of getBasicEmojiMap)
           (EmojiBody True (Some demo_directory_reordered))
           1000000500 1000000900 no_cache) (colons (js ''thanks'')) = Some [0xD83D, 0xDE4F]"
    unfolding r no_cache_def
    using C10_alias_resolution_depends_on_order [of "map_of getBasicEmojiMap" _ _ _ _
        1000000500 1000000900 0 "[?shipit, ?prayer]" "js ''prayer''" "[0xD83D, 0xDE4F]"
        "js ''thanks''" "[]"] b
    by simp
  have 4: "fst (fetchSlackEmojis (map_of getBasicEmojiMap)
           (EmojiBody True (Some demo_directory_reordered))
           1000000500 1000000900 no_cache) (js '':prayer:'') = Some [0xD83D, 0xDE4F]"
    by (simp add: fetchSlackEmojis_def no_cache_def demo_directory_reordered_def
        build_emoji_map_def startsWith_def colons_def map_add_def getUnicodeForEmojiName_def
        getBasicEmojiMap_def Let_def)
  show ?thesis using a 1 2 3 4 by (simp add: colons_def)
qed

end
